theory Spec2Isabelle
  imports Complex_Main "HOL-Library.AList"
begin

text \<open>
  The account service of an Express application: the verification codes of the password
  reset (\<open>forgetPassword\<close>, \<open>resetPassword\<close>), the login (\<open>loginUser\<close>), the password
  utilities (\<open>encryptPassword\<close>, \<open>verifyPassword\<close>) and the token utilities
  (\<open>generateToken\<close>, \<open>verifyToken\<close>, \<open>refreshToken\<close>). A call that throws returns its
  \<open>Error\<close> as \<open>Inl\<close>; the cache, the tables and the clock are passed to the functions; the
  libraries the code calls (bcryptjs, jsonwebtoken, the mail transport) and the \<open>Date\<close> of
  the runtime are parameters.
\<close>

section \<open>JavaScript strings and numbers\<close>

text \<open>
  A JavaScript string is a sequence of UTF-16 code units; the messages of the services
  are Chinese text, so a string is modelled as the list of its code units and
  \<open>length\<close> is the string's \<open>.length\<close>. ASCII literals are written with \<open>ascii\<close>.
\<close>

type_synonym jsstring = "nat list"

definition ascii :: "string \<Rightarrow> jsstring" where
  "ascii s = map of_char s"

text \<open>\<open>Number.prototype.toString\<close> on an integer: decimal digits, most significant first.\<close>

fun dec :: "nat \<Rightarrow> jsstring" where
  "dec n = (if n < 10 then [48 + n] else dec (n div 10) @ [48 + n mod 10])"

declare dec.simps [simp del]

definition number_toString :: "int \<Rightarrow> jsstring" where
  "number_toString i = (if i < 0 then 45 # dec (nat (- i)) else dec (nat i))"

text \<open>\<open>Array.prototype.join\<close>.\<close>

fun join :: "jsstring \<Rightarrow> jsstring list \<Rightarrow> jsstring" where
  "join sep [] = []"
| "join sep [x] = x"
| "join sep (x # y # ys) = x @ sep @ join sep (y # ys)"

text \<open>
  The class \<open>\s\<close> of an ECMAScript regular expression, and the character class
  \<open>[^\s@]\<close> of the e-mail pattern.
\<close>

definition white_space :: "nat \<Rightarrow> bool" where
  "white_space c =
     (c = 9 \<or> c = 10 \<or> c = 11 \<or> c = 12 \<or> c = 13 \<or> c = 32 \<or> c = 0xA0 \<or> c = 0x1680 \<or>
      (0x2000 \<le> c \<and> c \<le> 0x200A) \<or> c = 0x2028 \<or> c = 0x2029 \<or> c = 0x202F \<or>
      c = 0x205F \<or> c = 0x3000 \<or> c = 0xFEFF)"

definition not_space_or_at :: "nat \<Rightarrow> bool" where
  "not_space_or_at c = (\<not> white_space c \<and> c \<noteq> 64)"

text \<open>
  \<^verbatim>\<open>/^[^\s@]+@[^\s@]+\.[^\s@]+$/.test(s)\<close>: neither side of the \<open>@\<close> may hold another
  \<open>@\<close>, so the local part is what stands before the first \<open>@\<close>; what follows it must
  consist of allowed characters and hold a dot that is neither its first nor its last
  character.
\<close>

definition email_regex_test :: "jsstring \<Rightarrow> bool" where
  "email_regex_test s =
     (let local_part = takeWhile (\<lambda>c. c \<noteq> 64) s;
          rest = dropWhile (\<lambda>c. c \<noteq> 64) s
      in local_part \<noteq> [] \<and> list_all not_space_or_at local_part \<and> rest \<noteq> [] \<and>
         list_all not_space_or_at (tl rest) \<and>
         list_ex (\<lambda>c. c = 46) (butlast (tl (tl rest))))"

section \<open>Messages of the user service\<close>

text \<open>The literal messages of the service, code unit by code unit.\<close>

definition msg_login_empty :: jsstring where
  \<comment> \<open>"user name / password must not be empty"\<close>
  "msg_login_empty = [0x7528, 0x6237, 0x540D, 0x2F, 0x5BC6, 0x7801, 0x4E0D, 0x80FD, 0x4E3A, 0x7A7A]"

definition msg_login_invalid :: jsstring where
  \<comment> \<open>"wrong user name or password"\<close>
  "msg_login_invalid = [0x7528, 0x6237, 0x540D, 0x6216, 0x5BC6, 0x7801, 0x9519, 0x8BEF]"

definition msg_login_disabled :: jsstring where
  \<comment> \<open>"the account has been disabled, please contact the administrator"\<close>
  "msg_login_disabled = [0x8D26, 0x53F7, 0x5DF2, 0x88AB, 0x7981, 0x7528, 0xFF0C, 0x8BF7, 0x8054,
     0x7CFB, 0x7BA1, 0x7406, 0x5458]"

definition msg_email_invalid :: jsstring where
  \<comment> \<open>"the e-mail address is not well-formed"\<close>
  "msg_email_invalid = [0x90AE, 0x7BB1, 0x683C, 0x5F0F, 0x4E0D, 0x5408, 0x6CD5]"

definition msg_code_sent :: jsstring where
  \<comment> \<open>"the verification code has been sent to your mailbox"\<close>
  "msg_code_sent = [0x9A8C, 0x8BC1, 0x7801, 0x5DF2, 0x53D1, 0x9001, 0x81F3, 0x60A8, 0x7684,
     0x90AE, 0x7BB1, 0xFF0C, 0x8BF7, 0x67E5, 0x6536]"

definition msg_mail_failed :: jsstring where
  \<comment> \<open>"sending the verification mail failed:" (a prefix)\<close>
  "msg_mail_failed = [0x9A8C, 0x8BC1, 0x7801, 0x90AE, 0x4EF6, 0x53D1, 0x9001, 0x5931, 0x8D25,
     0xFF1A]"

definition msg_code_format :: jsstring where
  \<comment> \<open>"wrong format of the verification code (6 digits)"\<close>
  "msg_code_format = [0x9A8C, 0x8BC1, 0x7801, 0x683C, 0x5F0F, 0x9519, 0x8BEF, 0xFF08, 0x36,
     0x4F4D, 0x6570, 0x5B57, 0xFF09]"

definition msg_password_short :: jsstring where
  \<comment> \<open>"the new password must have at least 6 characters"\<close>
  "msg_password_short = [0x65B0, 0x5BC6, 0x7801, 0x957F, 0x5EA6, 0x4E0D, 0x80FD, 0x5C11, 0x4E8E,
     0x36, 0x4F4D]"

definition msg_separator :: jsstring where
  \<comment> \<open>the full-width semicolon that joins validation messages\<close>
  "msg_separator = [0xFF1B]"

definition msg_code_missing :: jsstring where
  \<comment> \<open>"the verification code has expired or was never sent, request a new one"\<close>
  "msg_code_missing = [0x9A8C, 0x8BC1, 0x7801, 0x5DF2, 0x8FC7, 0x671F, 0x6216, 0x672A, 0x53D1,
     0x9001, 0xFF0C, 0x8BF7, 0x91CD, 0x65B0, 0x83B7, 0x53D6]"

definition msg_code_expired :: jsstring where
  \<comment> \<open>"the verification code has expired, request a new one"\<close>
  "msg_code_expired = [0x9A8C, 0x8BC1, 0x7801, 0x5DF2, 0x8FC7, 0x671F, 0xFF0C, 0x8BF7, 0x91CD,
     0x65B0, 0x83B7, 0x53D6]"

definition msg_code_wrong :: jsstring where
  \<comment> \<open>"wrong verification code, enter it again"\<close>
  "msg_code_wrong = [0x9A8C, 0x8BC1, 0x7801, 0x9519, 0x8BEF, 0xFF0C, 0x8BF7, 0x91CD, 0x65B0,
     0x8F93, 0x5165]"

definition msg_user_missing :: jsstring where
  \<comment> \<open>"the user does not exist"\<close>
  "msg_user_missing = [0x7528, 0x6237, 0x4E0D, 0x5B58, 0x5728]"

definition msg_reset_done :: jsstring where
  \<comment> \<open>"the password has been reset, log in with the new password"\<close>
  "msg_reset_done = [0x5BC6, 0x7801, 0x91CD, 0x7F6E, 0x6210, 0x529F, 0xFF0C, 0x8BF7, 0x4F7F,
     0x7528, 0x65B0, 0x5BC6, 0x7801, 0x767B, 0x5F55]"

section \<open>The account store and the verification code cache\<close>

text \<open>
  A row of the \<open>user\<close> table as \<open>model/user.js\<close> declares it. \<open>user_status\<close> is
  \<open>ENUM('0', '1')\<close>: the column holds the strings \<open>'0'\<close> (disabled) and \<open>'1'\<close> (enabled).
  \<open>user_password\<close> holds the bcrypt digest that the field's setter computes.
\<close>

record user =
  user_id :: int
  user_name :: jsstring
  user_password :: jsstring
  user_fullname :: jsstring
  user_email :: jsstring
  user_phone :: jsstring
  user_status :: jsstring

text \<open>An entry of \<open>verifyCodeCache\<close>: \<open>{ code, expireTime, userId }\<close>.\<close>

record cache_entry =
  code :: jsstring
  expireTime :: int
  userId :: int

text \<open>
  The state the service works on: the process-local \<open>verifyCodeCache\<close> (a \<open>Map\<close> keyed
  by strings), the rows of the \<open>user\<close> and \<open>role_user\<close> tables, and the verification
  mails handed to \<open>sendVerifyCode\<close> (recipient and code), oldest first. The queries and
  updates of the tables are taken to succeed, and a row is found by the equality of the
  column with the value asked for.
\<close>

record service_state =
  verifyCodeCache :: "jsstring \<rightharpoonup> cache_entry"
  users :: "user list"
  role_users :: "(int \<times> int) list"
  outbox :: "(jsstring \<times> jsstring) list"

text \<open>
  What the mail utility answers: it resolves to \<open>{ success: true }\<close>, resolves to
  \<open>{ success: false, error: { message } }\<close>, or throws an \<open>Error\<close> with a message.
\<close>

datatype mail_result = Sent | NotSent jsstring | Fatal jsstring

text \<open>The value a service call resolves to: \<open>{ success, message }\<close>.\<close>

record response =
  success :: bool
  message :: jsstring

text \<open>\<open>verifyCodeCache.set(key, entry)\<close> and \<open>verifyCodeCache.delete(key)\<close>.\<close>

definition cache_set :: "jsstring \<Rightarrow> cache_entry \<Rightarrow> service_state \<Rightarrow> service_state" where
  "cache_set k e s = s\<lparr>verifyCodeCache := (\<lambda>k'. if k' = k then Some e else verifyCodeCache s k')\<rparr>"

definition cache_delete :: "jsstring \<Rightarrow> service_state \<Rightarrow> service_state" where
  "cache_delete k s = s\<lparr>verifyCodeCache := (\<lambda>k'. if k' = k then None else verifyCodeCache s k')\<rparr>"

definition CODE_EXPIRE_MINUTES :: int where
  "CODE_EXPIRE_MINUTES = 5"

text \<open>
  The numbers of JavaScript are those of IEEE 754 binary64. A finite double is an integer
  multiple \<open>m * 2 ^ q\<close> of a power of two with \<open>\<bar>m\<bar> < 2 ^ 53\<close> and \<open>- 1074 \<le> q\<close>, and the
  operators \<open>*\<close> and \<open>+\<close> give the double that is nearest to the exact product and sum, a
  tie going to the even multiple. For a positive \<open>x\<close>, \<open>binade x\<close> is the exponent \<open>e\<close> with
  \<open>2 ^ e \<le> x < 2 ^ (e + 1)\<close>; \<open>exponent x\<close> is the exponent of the doubles around \<open>x\<close>,
  which is \<open>- 1022\<close> for the subnormal numbers; \<open>ulp x\<close> is the distance between
  neighbouring doubles there; \<open>rne\<close> rounds a real to the nearest integer, a tie to the
  even one; \<open>round_double x\<close> is the double nearest to \<open>x\<close>. The overflow to \<open>Infinity\<close>, from
  \<open>2 ^ 1024\<close> on, is left out: the numbers of the service stay below \<open>2 ^ 20\<close>.
\<close>

function binade :: "real \<Rightarrow> int" where
  "binade x =
     (if x \<le> 0 then 0
      else if 2 \<le> x then binade (x / 2) + 1
      else if x < 1 then binade (x * 2) - 1
      else 0)"
  by pat_completeness auto

termination
proof (relation "measure (\<lambda>x. nat \<bar>\<lfloor>log 2 x\<rfloor>\<bar>)")
  show "wf (measure (\<lambda>x. nat \<bar>\<lfloor>log 2 x\<rfloor>\<bar>))" by simp
next
  fix x :: real
  assume "\<not> x \<le> 0" and "2 \<le> x"
  then have "log 2 (x / 2) = log 2 x - 1" by (simp add: log_divide_pos)
  then have 1: "\<lfloor>log 2 (x / 2)\<rfloor> = \<lfloor>log 2 x\<rfloor> - 1" by simp
  have "1 \<le> log 2 x" using \<open>2 \<le> x\<close> by (simp add: le_log_iff)
  then have "1 \<le> \<lfloor>log 2 x\<rfloor>" by linarith
  with 1 show "(x / 2, x) \<in> measure (\<lambda>x. nat \<bar>\<lfloor>log 2 x\<rfloor>\<bar>)" by simp
next
  fix x :: real
  assume "\<not> x \<le> 0" and "\<not> 2 \<le> x" and "x < 1"
  then have "log 2 (x * 2) = log 2 x + 1" by (simp add: log_mult_pos)
  then have 1: "\<lfloor>log 2 (x * 2)\<rfloor> = \<lfloor>log 2 x\<rfloor> + 1" by simp
  have "log 2 x < 0" using \<open>x < 1\<close> \<open>\<not> x \<le> 0\<close> by (simp add: log_less_iff)
  then have "\<lfloor>log 2 x\<rfloor> \<le> - 1" by linarith
  with 1 show "(x * 2, x) \<in> measure (\<lambda>x. nat \<bar>\<lfloor>log 2 x\<rfloor>\<bar>)" by simp
qed

declare binade.simps [simp del]

definition exponent :: "real \<Rightarrow> int" where
  "exponent x = max (binade \<bar>x\<bar>) (- 1022)"

definition ulp :: "real \<Rightarrow> real" where
  "ulp x = 2 powi (exponent x - 52)"

definition rne :: "real \<Rightarrow> int" where
  "rne x =
     (if x - of_int \<lfloor>x\<rfloor> < 1 / 2 then \<lfloor>x\<rfloor>
      else if 1 / 2 < x - of_int \<lfloor>x\<rfloor> then \<lfloor>x\<rfloor> + 1
      else if even \<lfloor>x\<rfloor> then \<lfloor>x\<rfloor> else \<lfloor>x\<rfloor> + 1)"

definition round_double :: "real \<Rightarrow> real" where
  "round_double x = of_int (rne (x / ulp x)) * ulp x"

text \<open>
  \<^verbatim>\<open>Math.floor(100000 + Math.random() * 900000).toString()\<close>. The argument is the value
  \<open>Math.random()\<close> returned, a double \<open>r\<close> with \<open>0 \<le> r < 1\<close>. The product is rounded to a
  double, then the sum is; \<open>Math.floor\<close> of a double is exact.
\<close>

definition code_number :: "real \<Rightarrow> int" where
  "code_number r = \<lfloor>round_double (100000 + round_double (r * 900000))\<rfloor>"

definition generateVerifyCode :: "real \<Rightarrow> jsstring" where
  "generateVerifyCode r = number_toString (code_number r)"

definition reset_key :: "jsstring \<Rightarrow> jsstring" where
  \<comment> \<open>the template \<^verbatim>\<open>`reset_${user_email}`\<close>\<close>
  "reset_key email = ascii ''reset_'' @ email"

text \<open>
  \<open>forgetPassword(user_email)\<close>. \<open>now\<close> is \<open>Date.now()\<close>, \<open>r\<close> the value of
  \<open>Math.random()\<close> and \<open>mail\<close> the answer of \<open>sendVerifyCode\<close>, should the call reach
  them. \<open>Inl m\<close> is the \<open>Error\<close> the call throws, with its message.
\<close>

definition forgetPassword ::
  "service_state \<Rightarrow> int \<Rightarrow> real \<Rightarrow> mail_result \<Rightarrow> jsstring \<Rightarrow>
     (jsstring + response) \<times> service_state" where
  "forgetPassword s now r mail email =
     (if email = [] \<or> \<not> email_regex_test email then (Inl msg_email_invalid, s)
      else case find (\<lambda>u. user_email u = email) (users s) of
        None \<Rightarrow> (Inr \<lparr>success = True, message = msg_code_sent\<rparr>, s)
      | Some u \<Rightarrow>
          let verifyCode = generateVerifyCode r;
              expireTime = now + CODE_EXPIRE_MINUTES * 60 * 1000;
              s' = (cache_set (reset_key email)
                      \<lparr>code = verifyCode, expireTime = expireTime, userId = user_id u\<rparr> s)
                    \<lparr>outbox := outbox s @ [(email, verifyCode)]\<rparr>
          in (case mail of
                Sent \<Rightarrow> (Inr \<lparr>success = True, message = msg_code_sent\<rparr>, s')
              | NotSent m \<Rightarrow> (Inl (msg_mail_failed @ m), s')
              | Fatal m \<Rightarrow> (Inl m, s')))"

text \<open>
  The setter of \<open>user_password\<close> stores \<open>bcrypt.hashSync(value, bcrypt.genSaltSync(10))\<close>.
  The hashing library is not part of the repository: \<open>hash\<close> stands for it, as a function
  of the random bytes the salt is made of and of the plain text.
\<close>

definition update_password ::
  "(nat list \<Rightarrow> jsstring \<Rightarrow> jsstring) \<Rightarrow> nat list \<Rightarrow> jsstring \<Rightarrow> user \<Rightarrow> user list \<Rightarrow> user list" where
  \<comment> \<open>\<open>user.update({ user_password })\<close>: an \<open>UPDATE\<close> of the rows with the user's key\<close>
  "update_password hash seed newPassword u us =
     map (\<lambda>v. if user_id v = user_id u then v\<lparr>user_password := hash seed newPassword\<rparr> else v) us"

text \<open>
  Steps 2 to 4 of \<open>resetPassword\<close> (the check of the code, the change of the password,
  the clean-up of the cache): the consumption of a verification code. \<open>Inr u\<close> is the
  account whose password was changed.
\<close>

definition consumeCode ::
  "(nat list \<Rightarrow> jsstring \<Rightarrow> jsstring) \<Rightarrow> service_state \<Rightarrow> int \<Rightarrow> nat list \<Rightarrow>
     jsstring \<Rightarrow> jsstring \<Rightarrow> jsstring \<Rightarrow> (jsstring + user) \<times> service_state" where
  "consumeCode hash s now seed email verifyCode newPassword =
     (let cacheKey = reset_key email in
      case verifyCodeCache s cacheKey of
        None \<Rightarrow> (Inl msg_code_missing, s)
      | Some cacheData \<Rightarrow>
          if expireTime cacheData < now
          then (Inl msg_code_expired, cache_delete cacheKey s)
          else if code cacheData \<noteq> verifyCode then (Inl msg_code_wrong, s)
          else (case find (\<lambda>u. user_id u = userId cacheData) (users s) of
                  None \<Rightarrow> (Inl msg_user_missing, s)
                | Some u \<Rightarrow>
                    (Inr u, cache_delete cacheKey
                              (s\<lparr>users := update_password hash seed newPassword u (users s)\<rparr>))))"

text \<open>
  \<open>resetPassword(user_email, verifyCode, newPassword)\<close>: the validation of the input,
  then the consumption of the code. The notification mail that follows only writes to
  the log.
\<close>

definition resetPassword ::
  "(nat list \<Rightarrow> jsstring \<Rightarrow> jsstring) \<Rightarrow> service_state \<Rightarrow> int \<Rightarrow> nat list \<Rightarrow>
     jsstring \<Rightarrow> jsstring \<Rightarrow> jsstring \<Rightarrow> (jsstring + response) \<times> service_state" where
  "resetPassword hash s now seed email verifyCode newPassword =
     (let validateErrors =
            (if email = [] \<or> \<not> email_regex_test email then [msg_email_invalid] else []) @
            (if verifyCode = [] \<or> length verifyCode \<noteq> 6 then [msg_code_format] else []) @
            (if newPassword = [] \<or> length newPassword < 6 then [msg_password_short] else [])
      in if length validateErrors > 0 then (Inl (join msg_separator validateErrors), s)
         else case consumeCode hash s now seed email verifyCode newPassword of
                (Inl m, s') \<Rightarrow> (Inl m, s')
              | (Inr u, s') \<Rightarrow> (Inr \<lparr>success = True, message = msg_reset_done\<rparr>, s'))"

section \<open>Login\<close>

text \<open>
  The JavaScript values the services compare and inspect. \<open>typeof\<close>, truthiness (what
  \<open>!v\<close> negates), \<open>Array.isArray\<close> and strict equality \<open>===\<close> on primitive values (two
  values of different types are never strictly equal).
\<close>

datatype jsval =
    JUndefined
  | JNull
  | JBool bool
  | JNum int
  | JStr jsstring
  | JArray "jsval list"
  | JObject "(jsstring \<times> jsval) list"

fun typeof :: "jsval \<Rightarrow> string" where
  "typeof JUndefined = ''undefined''"
| "typeof JNull = ''object''"
| "typeof (JBool b) = ''boolean''"
| "typeof (JNum n) = ''number''"
| "typeof (JStr s) = ''string''"
| "typeof (JArray xs) = ''object''"
| "typeof (JObject kvs) = ''object''"

fun truthy :: "jsval \<Rightarrow> bool" where
  "truthy JUndefined = False"
| "truthy JNull = False"
| "truthy (JBool b) = b"
| "truthy (JNum n) = (n \<noteq> 0)"
| "truthy (JStr s) = (s \<noteq> [])"
| "truthy (JArray xs) = True"
| "truthy (JObject kvs) = True"

fun isArray :: "jsval \<Rightarrow> bool" where
  "isArray (JArray xs) = True"
| "isArray v = False"

definition strict_equals :: "jsval \<Rightarrow> jsval \<Rightarrow> bool" where
  \<comment> \<open>two arrays or objects are equal only as references, which the model does not hold\<close>
  "strict_equals a b = (case a of JArray xs \<Rightarrow> False | JObject kvs \<Rightarrow> False | _ \<Rightarrow> a = b)"

definition msg_mask :: jsstring where
  "msg_mask = ascii ''****''"

definition is_digit :: "nat \<Rightarrow> bool" where
  "is_digit c = (48 \<le> c \<and> c \<le> 57)"

definition line_terminator :: "nat \<Rightarrow> bool" where
  \<comment> \<open>what the \<open>.\<close> of a regular expression does not match\<close>
  "line_terminator c = (c = 10 \<or> c = 13 \<or> c = 0x2028 \<or> c = 0x2029)"

text \<open>
  \<^verbatim>\<open>s.replace(/(\d{3})\d{4}(\d{4})/, '$1****$2')\<close>: the leftmost run of eleven digits
  keeps its first three and its last four.
\<close>

fun mask_phone :: "jsstring \<Rightarrow> jsstring" where
  "mask_phone [] = []"
| "mask_phone (c # cs) =
     (if 11 \<le> length (c # cs) \<and> list_all is_digit (take 11 (c # cs))
      then take 3 (c # cs) @ msg_mask @ drop 7 (c # cs)
      else c # mask_phone cs)"

text \<open>
  \<^verbatim>\<open>s.replace(/(.{2}).+(.{2})@/, '$1****$2@')\<close>: from the leftmost position that has an
  \<open>@\<close> at least five characters further on the same line, up to the last such \<open>@\<close>
  (the \<open>.+\<close> is greedy), only the first two and the last two characters stay.
\<close>

fun mask_email :: "jsstring \<Rightarrow> jsstring" where
  "mask_email [] = []"
| "mask_email (c # cs) =
     (let line = takeWhile (\<lambda>d. \<not> line_terminator d) (c # cs);
          ats = filter (\<lambda>j. 5 \<le> j \<and> line ! j = 64) [0..<length line]
      in if ats = [] then c # mask_email cs
         else take 2 (c # cs) @ msg_mask @ drop (last ats - 2) (c # cs))"

text \<open>What \<open>filterUserSensitiveFields\<close> returns: the row without \<open>user_password\<close>.\<close>

record safe_user =
  safe_id :: int
  safe_name :: jsstring
  safe_fullname :: jsstring
  safe_email :: jsstring
  safe_phone :: jsstring
  safe_status :: jsstring

definition filterUserSensitiveFields :: "user \<Rightarrow> safe_user" where
  "filterUserSensitiveFields u =
     \<lparr>safe_id = user_id u, safe_name = user_name u, safe_fullname = user_fullname u,
      safe_email = (if user_email u \<noteq> [] then mask_email (user_email u) else user_email u),
      safe_phone = (if user_phone u \<noteq> [] then mask_phone (user_phone u) else user_phone u),
      safe_status = user_status u\<rparr>"

text \<open>
  \<open>User.prototype.validatePassword\<close>: \<open>bcrypt.compareSync(password, stored digest)\<close>. The
  library's \<open>compareSync\<close> is a parameter; \<open>Inl m\<close> is the error it throws.
\<close>

definition validatePassword ::
  "(jsstring \<Rightarrow> jsstring \<Rightarrow> jsstring + bool) \<Rightarrow> user \<Rightarrow> jsstring \<Rightarrow> jsstring + bool" where
  "validatePassword compareSync u password = compareSync password (user_password u)"

text \<open>What \<open>loginUser\<close> resolves to: \<open>{ user, role_id }\<close>, \<open>role_id\<close> being \<open>null\<close> or a number.\<close>

record login_result =
  login_user :: safe_user
  login_role :: "int option"

definition role_of :: "(int \<times> int) list \<Rightarrow> int \<Rightarrow> int option" where
  \<comment> \<open>\<^verbatim>\<open>roleUser?.role_id || null\<close> for the first row of \<open>role_user\<close> with the user's id\<close>
  "role_of rows uid =
     (case find (\<lambda>row. fst row = uid) rows of
        None \<Rightarrow> None
      | Some row \<Rightarrow> if snd row = 0 then None else Some (snd row))"

text \<open>
  \<open>loginUser(user_name, user_password)\<close>. The account is the first row whose name or
  e-mail address is the identifier. \<open>user.user_status === 0\<close> compares the column's value,
  a string, with the number \<open>0\<close>.
\<close>

definition loginUser ::
  "(jsstring \<Rightarrow> jsstring \<Rightarrow> jsstring + bool) \<Rightarrow> service_state \<Rightarrow> jsstring \<Rightarrow> jsstring \<Rightarrow>
     jsstring + login_result" where
  "loginUser compareSync s name password =
     (if name = [] \<or> password = [] then Inl msg_login_empty
      else case find (\<lambda>u. user_name u = name \<or> user_email u = name) (users s) of
        None \<Rightarrow> Inl msg_login_invalid
      | Some u \<Rightarrow>
          if strict_equals (JStr (user_status u)) (JNum 0) then Inl msg_login_disabled
          else (case validatePassword compareSync u password of
                  Inl m \<Rightarrow> Inl m
                | Inr False \<Rightarrow> Inl msg_login_invalid
                | Inr True \<Rightarrow>
                    Inr \<lparr>login_user = filterUserSensitiveFields u,
                         login_role = role_of (role_users s) (user_id u)\<rparr>))"

section \<open>Password hashing\<close>

text \<open>
  \<open>utils/password.js\<close>. \<open>encryptPassword\<close> is \<open>bcrypt.hashSync(password,
  bcrypt.genSaltSync(10))\<close> and \<open>verifyPassword\<close> is \<open>bcrypt.compareSync(password, hash)\<close>,
  with no handler around either call. The library stands as parameters: \<open>hash\<close> as before,
  \<open>compareSync\<close> with the error it may throw.
\<close>

definition encryptPassword ::
  "(nat list \<Rightarrow> jsstring \<Rightarrow> jsstring) \<Rightarrow> nat list \<Rightarrow> jsstring \<Rightarrow> jsstring" where
  "encryptPassword hash seed password = hash seed password"

definition verifyPassword ::
  "(jsstring \<Rightarrow> jsstring \<Rightarrow> jsstring + bool) \<Rightarrow> jsstring \<Rightarrow> jsstring \<Rightarrow> jsstring + bool" where
  "verifyPassword compareSync password hash = compareSync password hash"

text \<open>
  The \<open>compareSync\<close> of the bcryptjs package the file requires, as far as its checks
  before any hashing go: a digest that is not 60 characters long compares false; the salt
  is the digest without its last 31 characters, and a salt that does not start with
  \<open>$2\<close> makes the hashing throw. \<open>rest\<close> is everything after these checks.
\<close>

definition bcryptjs_compareSync ::
  "(jsstring \<Rightarrow> jsstring \<Rightarrow> jsstring + bool) \<Rightarrow> jsstring \<Rightarrow> jsstring \<Rightarrow> jsstring + bool" where
  "bcryptjs_compareSync rest s hash =
     (if length hash \<noteq> 60 then Inr False
      else let salt = take (length hash - 31) hash in
        if take 1 salt \<noteq> ascii ''$'' \<or> take 1 (drop 1 salt) \<noteq> ascii ''2''
        then Inl (ascii ''Invalid salt version: '' @ take 2 salt)
        else rest s hash)"

section \<open>Tokens\<close>

text \<open>The literal messages of \<open>utils/token.js\<close>.\<close>

definition msg_payload :: jsstring where
  \<comment> \<open>"generating the token failed: payload must be a (non-empty) plain object"\<close>
  "msg_payload = [0x751F, 0x6210, 0x54, 0x6F, 0x6B, 0x65, 0x6E, 0x5931, 0x8D25, 0xFF1A, 0x70, 0x61,
     0x79, 0x6C, 0x6F, 0x61, 0x64, 0x5FC5, 0x987B, 0x662F, 0x975E, 0x7A7A, 0x7684, 0x7EAF, 0x5BF9,
     0x8C61]"

definition msg_sign_failed :: jsstring where
  \<comment> \<open>"generating the token failed:" (a prefix)\<close>
  "msg_sign_failed = [0x54, 0x6F, 0x6B, 0x65, 0x6E, 0x751F, 0x6210, 0x5931, 0x8D25, 0xFF1A]"

definition msg_token_argument :: jsstring where
  \<comment> \<open>"verifying the token failed: token must be a non-empty string"\<close>
  "msg_token_argument = [0x9A8C, 0x8BC1, 0x54, 0x6F, 0x6B, 0x65, 0x6E, 0x5931, 0x8D25, 0xFF1A, 0x74,
     0x6F, 0x6B, 0x65, 0x6E, 0x5FC5, 0x987B, 0x662F, 0x975E, 0x7A7A, 0x5B57, 0x7B26, 0x4E32]"

definition msg_expired :: jsstring where
  \<comment> \<open>"the token has expired (time of expiry:" (a prefix, closed by \<open>msg_close\<close>)\<close>
  "msg_expired = [0x54, 0x6F, 0x6B, 0x65, 0x6E, 0x5DF2, 0x8FC7, 0x671F, 0xFF08, 0x8FC7, 0x671F,
     0x65F6, 0x95F4, 0xFF1A]"

definition msg_close :: jsstring where
  \<comment> \<open>the full-width closing parenthesis\<close>
  "msg_close = [0xFF09]"

definition msg_signature :: jsstring where
  \<comment> \<open>"the signature of the token is invalid (it may have been tampered with)"\<close>
  "msg_signature = [0x54, 0x6F, 0x6B, 0x65, 0x6E, 0x7B7E, 0x540D, 0x65E0, 0x6548, 0xFF08, 0x53EF,
     0x80FD, 0x88AB, 0x7BE1, 0x6539, 0xFF09]"

definition msg_not_active :: jsstring where
  \<comment> \<open>"the token is not yet valid (valid from:" (a prefix, closed by \<open>msg_close\<close>)\<close>
  "msg_not_active = [0x54, 0x6F, 0x6B, 0x65, 0x6E, 0x5C1A, 0x672A, 0x751F, 0x6548, 0xFF08, 0x751F,
     0x6548, 0x65F6, 0x95F4, 0xFF1A]"

definition msg_cannot_refresh :: jsstring where
  \<comment> \<open>"the token cannot be refreshed:" (a prefix)\<close>
  "msg_cannot_refresh = [0x65E0, 0x6CD5, 0x5237, 0x65B0, 0x54, 0x6F, 0x6B, 0x65, 0x6E, 0xFF1A]"

definition expiry_label :: jsstring where
  \<comment> \<open>"time of expiry:", the literal of the pattern \<^verbatim>\<open>/...(.*)/\<close> in \<open>refreshToken\<close>\<close>
  "expiry_label = [0x8FC7, 0x671F, 0x65F6, 0x95F4, 0xFF1A]"

definition msg_leeway_over :: jsstring where
  \<comment> \<open>"the grace period of the refresh is over (it lasted until:" (a prefix)\<close>
  "msg_leeway_over = [0x54, 0x6F, 0x6B, 0x65, 0x6E, 0x5237, 0x65B0, 0x5BBD, 0x9650, 0x671F, 0x5DF2,
     0x8FC7, 0xFF08, 0x5BBD, 0x9650, 0x671F, 0x81F3, 0xFF1A]"

definition msg_login_again :: jsstring where
  \<comment> \<open>"), please log in again"\<close>
  "msg_login_again = [0xFF09, 0xFF0C, 0x8BF7, 0x91CD, 0x65B0, 0x767B, 0x5F55]"

definition msg_decode :: jsstring where
  \<comment> \<open>"the payload of the old token could not be parsed"\<close>
  "msg_decode = [0x539F, 0x54, 0x6F, 0x6B, 0x65, 0x6E, 0x8F7D, 0x8377, 0x89E3, 0x6790, 0x5931,
     0x8D25]"

definition msg_refresh_failed :: jsstring where
  \<comment> \<open>"refreshing the token failed:" (a prefix)\<close>
  "msg_refresh_failed = [0x5237, 0x65B0, 0x54, 0x6F, 0x6B, 0x65, 0x6E, 0x5931, 0x8D25, 0xFF1A]"

text \<open>\<open>config/jwt.js\<close>: the configuration object.\<close>

record jwt_config =
  secret :: jsstring
  expiresIn :: jsstring
  algorithms :: "jsstring list"
  issuer :: jsstring
  audience :: jsstring
  ignoreExpiration :: bool

text \<open>
  The jsonwebtoken package is not part of the repository; its three functions are
  parameters. An error it throws has a name (one of the three the code switches on, or
  another one), a message and, for two of them, a date in milliseconds.
\<close>

datatype jwt_error =
    TokenExpiredError jsstring int
  | JsonWebTokenError jsstring
  | NotBeforeError jsstring int
  | OtherError jsstring

record jwt_lib =
  jwt_sign :: "jsval \<Rightarrow> jsstring \<Rightarrow> (jsstring \<times> jsval) list \<Rightarrow> jsstring + jsstring"
  jwt_verify :: "jsstring \<Rightarrow> jsstring \<Rightarrow> (jsstring \<times> jsval) list \<Rightarrow> jwt_error + jsval"
  jwt_decode :: "jsstring \<Rightarrow> jsstring + jsval"

text \<open>
  Of the JavaScript runtime, \<open>refreshToken\<close> uses the conversion of a \<open>Date\<close> to a string
  (in a template literal) and the \<open>Date\<close> constructor on a string, whose result is an
  Invalid Date (\<open>None\<close>) when the runtime cannot read the string. A date is its time value
  in milliseconds.
\<close>

record runtime =
  date_toString :: "int \<Rightarrow> jsstring"
  date_parse :: "jsstring \<Rightarrow> int option"

definition BEARER_PREFIX :: jsstring where
  "BEARER_PREFIX = ascii ''Bearer ''"

definition REFRESH_LEEWAY :: int where
  "REFRESH_LEEWAY = 60 * 1000"

definition startsWith :: "jsstring \<Rightarrow> jsstring \<Rightarrow> bool" where
  "startsWith s p = (take (length p) s = p)"

fun js_includes :: "jsstring \<Rightarrow> jsstring \<Rightarrow> bool" where
  "js_includes [] p = (p = [])"
| "js_includes (c # cs) p = (startsWith (c # cs) p \<or> js_includes cs p)"

definition trim :: "jsstring \<Rightarrow> jsstring" where
  "trim s = rev (dropWhile white_space (rev (dropWhile white_space s)))"

definition pure_token :: "jsstring \<Rightarrow> jsstring" where
  \<comment> \<open>the token without its \<open>Bearer\<close> prefix\<close>
  "pure_token token =
     (if startsWith token BEARER_PREFIX then trim (drop (length BEARER_PREFIX) token)
      else trim token)"

definition first_algorithm :: "jwt_config \<Rightarrow> jsval" where
  \<comment> \<open>\<open>jwtConfig.algorithms[0]\<close>\<close>
  "first_algorithm cfg = (case algorithms cfg of [] \<Rightarrow> JUndefined | a # as \<Rightarrow> JStr a)"

text \<open>
  An object is the list of its properties in the order of their creation. Copying the
  properties of \<open>source\<close> onto \<open>target\<close>, as a spread inside an object literal does:
  a property the target has is overwritten in place, a new one is added at the end.
\<close>

definition object_assign ::
  "(jsstring \<times> jsval) list \<Rightarrow> (jsstring \<times> jsval) list \<Rightarrow> (jsstring \<times> jsval) list" where
  "object_assign target source = foldl (\<lambda>acc kv. AList.update (fst kv) (snd kv) acc) target source"

definition sign_options :: "jwt_config \<Rightarrow> (jsstring \<times> jsval) list \<Rightarrow> (jsstring \<times> jsval) list" where
  \<comment> \<open>\<^verbatim>\<open>{ expiresIn, algorithm, issuer, audience, ...options }\<close>\<close>
  "sign_options cfg options =
     object_assign
       [(ascii ''expiresIn'', JStr (expiresIn cfg)), (ascii ''algorithm'', first_algorithm cfg),
        (ascii ''issuer'', JStr (issuer cfg)), (ascii ''audience'', JStr (audience cfg))]
       options"

text \<open>\<open>generateToken(payload, options)\<close>; \<open>Inl m\<close> is the \<open>Error\<close> it throws.\<close>

definition generateToken ::
  "jwt_lib \<Rightarrow> jwt_config \<Rightarrow> jsval \<Rightarrow> (jsstring \<times> jsval) list \<Rightarrow> jsstring + jsstring" where
  "generateToken lib cfg payload options =
     (if \<not> truthy payload \<or> typeof payload \<noteq> ''object'' \<or> isArray payload
      then Inl msg_payload
      else (case jwt_sign lib payload (secret cfg) (sign_options cfg options) of
              Inr token \<Rightarrow> Inr token
            | Inl m \<Rightarrow> Inl (msg_sign_failed @ m)))"

text \<open>The \<open>error\<close> object of a result: \<open>{ type, message }\<close>.\<close>

record token_error =
  error_type :: string
  error_message :: jsstring

datatype verify_result = Valid jsval | Invalid token_error

definition verify_options :: "jwt_config \<Rightarrow> (jsstring \<times> jsval) list" where
  "verify_options cfg =
     [(ascii ''algorithms'', JArray (map JStr (algorithms cfg))),
      (ascii ''issuer'', JStr (issuer cfg)), (ascii ''audience'', JStr (audience cfg)),
      (ascii ''ignoreExpiration'', JBool (ignoreExpiration cfg))]"

definition classify :: "runtime \<Rightarrow> jwt_error \<Rightarrow> token_error" where
  \<comment> \<open>the \<open>switch (error.name)\<close> of \<open>verifyToken\<close>\<close>
  "classify rt err =
     (case err of
        TokenExpiredError m expiredAt \<Rightarrow>
          \<lparr>error_type = ''expired'',
           error_message = msg_expired @ date_toString rt expiredAt @ msg_close\<rparr>
      | JsonWebTokenError m \<Rightarrow>
          if js_includes m (ascii ''signature'')
          then \<lparr>error_type = ''invalid_signature'', error_message = msg_signature\<rparr>
          else \<lparr>error_type = ''invalid_token'', error_message = m\<rparr>
      | NotBeforeError m date \<Rightarrow>
          \<lparr>error_type = ''not_active'',
           error_message = msg_not_active @ date_toString rt date @ msg_close\<rparr>
      | OtherError m \<Rightarrow> \<lparr>error_type = ''other'', error_message = m\<rparr>)"

definition verifyToken :: "runtime \<Rightarrow> jwt_lib \<Rightarrow> jwt_config \<Rightarrow> jsval \<Rightarrow> verify_result" where
  "verifyToken rt lib cfg token =
     (case token of
        JStr s \<Rightarrow>
          if s = [] then Invalid \<lparr>error_type = ''invalid_token'', error_message = msg_token_argument\<rparr>
          else (case jwt_verify lib (pure_token s) (secret cfg) (verify_options cfg) of
                  Inr decoded \<Rightarrow> Valid decoded
                | Inl err \<Rightarrow> Invalid (classify rt err))
      | _ \<Rightarrow> Invalid \<lparr>error_type = ''invalid_token'', error_message = msg_token_argument\<rparr>)"

text \<open>
  \<^verbatim>\<open>message.match(/<expiry_label>(.*)/)\<close>: the match starts at the first occurrence of the
  label, and the group is everything that follows it up to the end of the line.
  \<open>None\<close> is the \<open>null\<close> of a failed match.
\<close>

fun after_label :: "jsstring \<Rightarrow> jsstring \<Rightarrow> jsstring option" where
  "after_label label [] = (if label = [] then Some [] else None)"
| "after_label label (c # cs) =
     (if startsWith (c # cs) label then Some (drop (length label) (c # cs))
      else after_label label cs)"

definition match_expiry :: "jsstring \<Rightarrow> jsstring option" where
  "match_expiry m =
     map_option (takeWhile (\<lambda>c. \<not> line_terminator c)) (after_label expiry_label m)"

text \<open>The own enumerable properties a spread \<open>{ ...v }\<close> copies.\<close>

fun spread :: "jsval \<Rightarrow> (jsstring \<times> jsval) list" where
  "spread (JObject kvs) = kvs"
| "spread (JArray xs) = map (\<lambda>i. (dec i, xs ! i)) [0..<length xs]"
| "spread (JStr s) = map (\<lambda>i. (dec i, JStr [s ! i])) [0..<length s]"
| "spread v = []"

datatype refresh_result = Refreshed jsstring | NotRefreshed token_error

text \<open>
  Steps 3 to 5 of \<open>refreshToken\<close>: decode the old token, merge the payloads, drop the
  registered claims, sign again with the default options.
\<close>

definition final_payload :: "int \<Rightarrow> jsval \<Rightarrow> jsval \<Rightarrow> (jsstring \<times> jsval) list" where
  "final_payload now oldPayload newPayload =
     AList.delete (ascii ''aud'') (AList.delete (ascii ''iss'') (AList.delete (ascii ''exp'')
       (AList.delete (ascii ''iat'')
          (object_assign (object_assign (spread oldPayload) (spread newPayload))
             [(ascii ''iat'', JNum (now div 1000))]))))"

definition reissue :: "jwt_lib \<Rightarrow> jwt_config \<Rightarrow> int \<Rightarrow> jsstring \<Rightarrow> jsval \<Rightarrow> refresh_result" where
  "reissue lib cfg now oldToken newPayload =
     (case jwt_decode lib (pure_token oldToken) of
        Inl m \<Rightarrow> NotRefreshed \<lparr>error_type = ''decode_failed'', error_message = msg_refresh_failed @ m\<rparr>
      | Inr oldPayload \<Rightarrow>
          if \<not> truthy oldPayload
          then NotRefreshed \<lparr>error_type = ''decode_failed'',
                 error_message = msg_refresh_failed @ msg_decode\<rparr>
          else (case generateToken lib cfg (JObject (final_payload now oldPayload newPayload)) [] of
                  Inr newToken \<Rightarrow> Refreshed newToken
                | Inl m \<Rightarrow> NotRefreshed \<lparr>error_type = ''generate_failed'',
                            error_message = msg_refresh_failed @ m\<rparr>))"

text \<open>
  \<open>refreshToken(oldToken, newPayload)\<close> at the time \<open>now\<close> (\<open>new Date()\<close>, in milliseconds).
  \<open>Inl\<close> is the \<open>TypeError\<close> of reading \<open>[1]\<close> of a failed match, which no handler
  catches. A comparison with an Invalid Date is false. A verification result is valid or
  expired only for a string, so the steps that follow work on a string.
\<close>

definition refreshToken ::
  "runtime \<Rightarrow> jwt_lib \<Rightarrow> jwt_config \<Rightarrow> int \<Rightarrow> jsval \<Rightarrow> jsval \<Rightarrow> string + refresh_result" where
  "refreshToken rt lib cfg now oldToken newPayload =
     (let continue = Inr (reissue lib cfg now (case oldToken of JStr s \<Rightarrow> s | _ \<Rightarrow> []) newPayload)
      in case verifyToken rt lib cfg oldToken of
        Valid decoded \<Rightarrow> continue
      | Invalid err \<Rightarrow>
          if error_type err \<noteq> ''expired''
          then Inr (NotRefreshed \<lparr>error_type = error_type err,
                      error_message = msg_cannot_refresh @ error_message err\<rparr>)
          else (case match_expiry (error_message err) of
                  None \<Rightarrow> Inl ''TypeError''
                | Some captured \<Rightarrow>
                    (case date_parse rt captured of
                       None \<Rightarrow> continue
                     | Some expiredAt \<Rightarrow>
                         let leewayEnd = expiredAt + REFRESH_LEEWAY in
                         if now > leewayEnd
                         then Inr (NotRefreshed \<lparr>error_type = ''refresh_expired'',
                                     error_message = msg_leeway_over @ date_toString rt leewayEnd @
                                       msg_login_again\<rparr>)
                         else continue)))"

section \<open>Example data\<close>

text \<open>
  Two accounts, \<open>bob\<close> (enabled) and \<open>carol\<close> (disabled), a store with an empty cache
  and one where a code is waiting for \<open>bob\<close>; stand-ins for the libraries and the
  runtime, on which the examples below are evaluated.
\<close>

definition bob :: user where
  "bob = \<lparr>user_id = 1, user_name = ascii ''bob'', user_password = ascii ''digest-of-secret1'',
          user_fullname = ascii ''Bob'', user_email = ascii ''bob@x.com'', user_phone = [],
          user_status = ascii ''1''\<rparr>"

definition carol :: user where
  "carol = \<lparr>user_id = 2, user_name = ascii ''carol'', user_password = ascii ''digest-of-secret2'',
            user_fullname = ascii ''Carol'', user_email = ascii ''carol@x.com'', user_phone = [],
            user_status = ascii ''0''\<rparr>"

definition store0 :: service_state where
  "store0 = \<lparr>verifyCodeCache = (\<lambda>k. None), users = [bob, carol],
             role_users = [(1, 2), (2, 2)], outbox = []\<rparr>"

definition store1 :: service_state where
  "store1 = cache_set (reset_key (ascii ''bob@x.com''))
              \<lparr>code = ascii ''123456'', expireTime = 300000, userId = 1\<rparr> store0"

definition example_hash :: "nat list \<Rightarrow> jsstring \<Rightarrow> jsstring" where
  "example_hash seed password = ascii ''digest-of-'' @ password"

definition example_compare :: "jsstring \<Rightarrow> jsstring \<Rightarrow> jsstring + bool" where
  "example_compare password digest = Inr (digest = ascii ''digest-of-'' @ password)"

definition example_config :: jwt_config where
  "example_config = \<lparr>secret = ascii ''s3cret'', expiresIn = ascii ''24h'',
     algorithms = [ascii ''HS256''], issuer = ascii ''cfc_app'',
     audience = ascii ''cfc_app_users'', ignoreExpiration = False\<rparr>"

text \<open>
  A signer that, like jsonwebtoken, refuses a payload with an \<open>exp\<close> of its own when the
  option \<open>expiresIn\<close> is given; a verifier for which the token \<open>old\<close> expired at the
  time 1000000 and every other token has a bad signature.
\<close>

definition example_jwt :: jwt_lib where
  "example_jwt =
     \<lparr>jwt_sign = (\<lambda>payload key options.
         if map_of (spread payload) (ascii ''exp'') \<noteq> None \<and>
            map_of options (ascii ''expiresIn'') \<noteq> None
         then Inl (ascii ''Bad options.expiresIn option the payload already has an exp property.'')
         else Inr (ascii ''signed'')),
      jwt_verify = (\<lambda>token key options.
         if token = ascii ''old'' then Inl (TokenExpiredError (ascii ''jwt expired'') 1000000)
         else Inl (JsonWebTokenError (ascii ''invalid signature''))),
      jwt_decode = (\<lambda>token.
         Inr (JObject [(ascii ''user_id'', JNum 7), (ascii ''iat'', JNum 900),
                       (ascii ''exp'', JNum 1000)]))\<rparr>"

text \<open>
  A runtime that writes a date as its number of milliseconds and, like V8 on a date
  followed by a stray word, reads no string that holds anything else.
\<close>

definition example_runtime :: runtime where
  "example_runtime =
     \<lparr>date_toString = number_toString,
      date_parse = (\<lambda>s. if s \<noteq> [] \<and> list_all is_digit s
                         then Some (foldl (\<lambda>a c. 10 * a + (int c - 48)) 0 s) else None)\<rparr>"

section \<open>Properties of the verification code cache\<close>

subsection \<open>Rounding to doubles\<close>

text \<open>
  \<open>binade\<close> is the exponent of the power of two below a positive number, \<open>rne\<close> stays
  within 1/2 of its argument, and \<open>round_double\<close> is monotone, stays within half an
  \<open>ulp\<close> of its argument and leaves the multiples of \<open>ulp\<close> as they are; so the integers
  below \<open>2 ^ 20\<close> and the multiples of \<open>2 ^ - 33\<close> below them are doubles.
\<close>

lemma binade_bounds:
  "0 < x \<Longrightarrow> 2 powi binade x \<le> x \<and> x < 2 powi (binade x + 1)"
proof (induction x rule: binade.induct)
  case (1 x)
  show ?case
  proof (cases "2 \<le> x")
    case True
    with 1 have ih: "2 powi binade (x / 2) \<le> x / 2" "x / 2 < 2 powi (binade (x / 2) + 1)"
      by simp_all
    have b: "binade x = binade (x / 2) + 1" using True by (subst binade.simps) simp
    show ?thesis using ih by (simp add: b power_int_add)
  next
    case False
    show ?thesis
    proof (cases "x < 1")
      case True
      with 1 False have ih: "2 powi binade (x * 2) \<le> x * 2" "x * 2 < 2 powi (binade (x * 2) + 1)"
        by simp_all
      have b: "binade x = binade (x * 2) - 1"
        using True False 1(3) by (subst binade.simps) simp
      show ?thesis using ih by (simp add: b power_int_add power_int_diff)
    next
      case geq: False
      have b: "binade x = 0" using geq False 1(3) by (subst binade.simps) simp
      show ?thesis using geq False by (simp add: b)
    qed
  qed
qed

lemma binade_less: "0 < x \<Longrightarrow> x < 2 powi (b + 1) \<Longrightarrow> binade x \<le> b"
proof (rule ccontr)
  assume x: "0 < x" "x < 2 powi (b + 1)" and "\<not> binade x \<le> b"
  then have "b + 1 \<le> binade x" by simp
  then have "(2::real) powi (b + 1) \<le> 2 powi binade x" by (rule power_int_increasing) simp
  with binade_bounds [OF x(1)] x(2) show False by simp
qed

lemma binade_greater: "0 < x \<Longrightarrow> 2 powi b \<le> x \<Longrightarrow> b \<le> binade x"
proof (rule ccontr)
  assume x: "0 < x" "2 powi b \<le> x" and "\<not> b \<le> binade x"
  then have "binade x + 1 \<le> b" by simp
  then have "(2::real) powi (binade x + 1) \<le> 2 powi b" by (rule power_int_increasing) simp
  with binade_bounds [OF x(1)] x(2) show False by simp
qed

lemma binade_unique: "0 < x \<Longrightarrow> 2 powi b \<le> x \<Longrightarrow> x < 2 powi (b + 1) \<Longrightarrow> binade x = b"
  using binade_less [of x b] binade_greater [of x b] by simp

lemma binade_mono: "0 < x \<Longrightarrow> x \<le> y \<Longrightarrow> binade x \<le> binade y"
proof -
  assume x: "0 < x" "x \<le> y"
  then have "0 < y" by simp
  from binade_bounds [OF x(1)] x(2) have "2 powi binade x \<le> y" by simp
  with \<open>0 < y\<close> show ?thesis by (rule binade_greater)
qed

lemma rne_near: "\<bar>of_int (rne x) - x\<bar> \<le> 1 / 2"
proof -
  have "of_int \<lfloor>x\<rfloor> \<le> x" "x < of_int \<lfloor>x\<rfloor> + 1" by linarith+
  then show ?thesis by (auto simp add: rne_def)
qed

lemma rne_of_int [simp]: "rne (of_int n) = n"
  by (simp add: rne_def)

lemma rne_mono: "x \<le> y \<Longrightarrow> rne x \<le> rne y"
proof (rule ccontr)
  assume le: "x \<le> y" and "\<not> rne x \<le> rne y"
  then have "rne y + 1 \<le> rne x" by simp
  then have "of_int (rne y) + (1::real) \<le> of_int (rne x)"
    by (metis of_int_1 of_int_add of_int_le_iff)
  with rne_near [of x] rne_near [of y] le have "x = y" by linarith
  with \<open>\<not> rne x \<le> rne y\<close> show False by simp
qed

lemma rne_unique: "\<bar>x - of_int n\<bar> < 1 / 2 \<Longrightarrow> rne x = n"
proof -
  assume "\<bar>x - of_int n\<bar> < 1 / 2"
  with rne_near [of x] have "\<bar>of_int (rne x) - (of_int n :: real)\<bar> < 1" by linarith
  then have "\<bar>of_int (rne x - n) :: real\<bar> < 1" by simp
  then have "\<bar>rne x - n\<bar> < 1" by (metis of_int_1 of_int_abs of_int_less_iff)
  then show ?thesis by simp
qed


lemma ulp_pos: "0 < ulp x"
  by (simp add: ulp_def)

lemma exponent_pos: "0 < x \<Longrightarrow> exponent x = max (binade x) (- 1022)"
  by (simp add: exponent_def)

lemma exponent_mono: "0 < x \<Longrightarrow> x \<le> y \<Longrightarrow> exponent x \<le> exponent y"
  using binade_mono [of x y] by (simp add: exponent_pos)

lemma ulp_times: "2 powi k * ulp x = 2 powi (k + (exponent x - 52))"
  by (simp add: ulp_def power_int_add)

lemma ulp_53: "2 ^ 53 * ulp x = 2 powi (exponent x + 1)"
proof -
  have "(53::int) + (exponent x - 52) = exponent x + 1" by simp
  then have "2 powi 53 * ulp x = 2 powi (exponent x + 1)" by (simp only: ulp_times)
  then show ?thesis by simp
qed

lemma ulp_52: "2 ^ 52 * ulp x = 2 powi exponent x"
proof -
  have "(52::int) + (exponent x - 52) = exponent x" by simp
  then have "2 powi 52 * ulp x = 2 powi exponent x" by (simp only: ulp_times)
  then show ?thesis by simp
qed

lemma round_double_zero: "round_double 0 = 0"
  using rne_of_int [of 0] by (simp add: round_double_def)

lemma round_double_fix:
  assumes "x / ulp x = of_int n"
  shows "round_double x = x"
proof -
  have "x / ulp x * ulp x = x" using ulp_pos [of x] by simp
  then have "of_int n * ulp x = x" by (simp only: assms)
  then show ?thesis by (simp only: round_double_def assms rne_of_int)
qed

lemma round_double_nearest: "\<bar>round_double x - x\<bar> \<le> ulp x / 2"
proof -
  have "round_double x - x = (of_int (rne (x / ulp x)) - x / ulp x) * ulp x"
    using ulp_pos [of x] by (simp add: round_double_def field_simps)
  then have "\<bar>round_double x - x\<bar> = \<bar>of_int (rne (x / ulp x)) - x / ulp x\<bar> * ulp x"
    using ulp_pos [of x] by (simp add: abs_mult)
  also have "\<dots> \<le> 1 / 2 * ulp x"
    using rne_near [of "x / ulp x"] ulp_pos [of x] by (intro mult_right_mono) simp_all
  finally show ?thesis by simp
qed

lemma round_double_nonneg: "0 \<le> x \<Longrightarrow> 0 \<le> round_double x"
proof -
  assume "0 \<le> x"
  then have "0 \<le> x / ulp x" using ulp_pos [of x] by simp
  then have "rne 0 \<le> rne (x / ulp x)" by (rule rne_mono)
  then have "0 \<le> rne (x / ulp x)" using rne_of_int [of 0] by simp
  then show ?thesis using ulp_pos [of x] by (simp add: round_double_def)
qed

lemma round_double_upper:
  assumes "0 < x"
  shows "round_double x \<le> 2 powi (exponent x + 1)"
proof -
  have "binade x + 1 \<le> exponent x + 1" using assms by (simp add: exponent_pos)
  then have "(2::real) powi (binade x + 1) \<le> 2 powi (exponent x + 1)"
    by (rule power_int_increasing) simp
  with binade_bounds [OF assms] have "x \<le> 2 powi (exponent x + 1)" by simp
  then have "x \<le> 2 ^ 53 * ulp x" by (simp only: ulp_53)
  then have "x / ulp x \<le> of_int (2 ^ 53)" using ulp_pos [of x] by (simp add: field_simps)
  then have "rne (x / ulp x) \<le> rne (of_int (2 ^ 53))" by (rule rne_mono)
  then have "rne (x / ulp x) \<le> 2 ^ 53" by (simp only: rne_of_int)
  then have "real_of_int (rne (x / ulp x)) \<le> of_int (2 ^ 53)" by (simp only: of_int_le_iff)
  then have "round_double x \<le> 2 ^ 53 * ulp x"
    using ulp_pos [of x] by (simp add: round_double_def)
  then show ?thesis by (simp only: ulp_53)
qed

lemma round_double_lower:
  assumes "0 < x" and "- 1022 < exponent x"
  shows "2 powi exponent x \<le> round_double x"
proof -
  have "exponent x = binade x" using assms by (simp add: exponent_pos max_def split: if_splits)
  with binade_bounds [OF assms(1)] have "2 powi exponent x \<le> x" by simp
  then have "2 ^ 52 * ulp x \<le> x" by (simp only: ulp_52)
  then have "of_int (2 ^ 52) \<le> x / ulp x" using ulp_pos [of x] by (simp add: field_simps)
  then have "rne (of_int (2 ^ 52)) \<le> rne (x / ulp x)" by (rule rne_mono)
  then have "2 ^ 52 \<le> rne (x / ulp x)" by (simp only: rne_of_int)
  then have "of_int (2 ^ 52) \<le> real_of_int (rne (x / ulp x))" by (simp only: of_int_le_iff)
  then have "2 ^ 52 * ulp x \<le> round_double x"
    using ulp_pos [of x] by (simp add: round_double_def)
  then show ?thesis by (simp only: ulp_52)
qed

lemma round_double_mono:
  assumes "0 \<le> x" and "x \<le> y"
  shows "round_double x \<le> round_double y"
proof (cases "x = 0")
  case True
  then show ?thesis using round_double_nonneg [of y] assms by (simp add: round_double_zero)
next
  case False
  then have x: "0 < x" and y: "0 < y" using assms by simp_all
  have le: "exponent x \<le> exponent y" using x assms(2) by (rule exponent_mono)
  show ?thesis
  proof (cases "exponent x = exponent y")
    case True
    then have u: "ulp y = ulp x" by (simp add: ulp_def)
    have "x / ulp x \<le> y / ulp x" using assms(2) ulp_pos [of x] by (simp add: field_simps)
    then have "rne (x / ulp x) \<le> rne (y / ulp x)" by (rule rne_mono)
    then show ?thesis using ulp_pos [of x] by (simp add: round_double_def u)
  next
    case False
    with le have less: "exponent x + 1 \<le> exponent y" by simp
    have "- 1022 \<le> exponent x" by (simp add: exponent_def)
    with less have "- 1022 < exponent y" by simp
    with y have "2 powi exponent y \<le> round_double y" by (rule round_double_lower)
    moreover have "(2::real) powi (exponent x + 1) \<le> 2 powi exponent y"
      using less by (rule power_int_increasing) simp
    moreover note round_double_upper [OF x]
    ultimately show ?thesis by linarith
  qed
qed


lemma round_double_grid:
  assumes "0 \<le> m" and "m < 2 ^ 53"
  shows "round_double (of_int m / 2 ^ 33) = of_int m / 2 ^ 33"
proof (cases "m = 0")
  case True
  then show ?thesis by (simp add: round_double_zero)
next
  case False
  define x :: real where "x = of_int m / 2 ^ 33"
  have "0 < m" using assms(1) False by simp
  then have x: "0 < x" by (simp add: x_def)
  have "real_of_int m < of_int (2 ^ 53)" using assms(2) by (simp only: of_int_less_iff)
  then have "x < 2 powi (19 + 1)" by (simp add: x_def field_simps)
  with x have "binade x \<le> 19" by (rule binade_less)
  then have e: "exponent x \<le> 19" using x by (simp add: exponent_pos)
  define j where "j = nat (19 - exponent x)"
  have j: "int j = 19 - exponent x" using e by (simp add: j_def)
  have "(2::real) powi (- 33 - (exponent x - 52)) = 2 powi (- 33) / 2 powi (exponent x - 52)"
    by (rule power_int_diff) simp
  moreover have "- 33 - (exponent x - 52) = int j" by (simp add: j)
  ultimately have "2 powi (- 33) / ulp x = 2 ^ j"
    by (simp only: ulp_def power_int_of_nat)
  moreover have "x / ulp x = of_int m * (2 powi (- 33) / ulp x)"
    by (simp add: x_def power_int_minus field_simps)
  ultimately have "x / ulp x = of_int (m * 2 ^ j)" by simp
  then have "round_double x = x" by (rule round_double_fix)
  then show ?thesis by (simp only: x_def)
qed

lemma round_double_int:
  assumes "0 \<le> k" and "k < 2 ^ 20"
  shows "round_double (of_int k) = of_int k"
proof -
  have "0 \<le> k * 2 ^ 33" "k * 2 ^ 33 < 2 ^ 53" using assms by simp_all
  then have "round_double (of_int (k * 2 ^ 33) / 2 ^ 33) = of_int (k * 2 ^ 33) / 2 ^ 33"
    by (rule round_double_grid)
  then show ?thesis by simp
qed

lemma round_double_below_int:
  assumes "1 \<le> k" and "k \<le> 2 ^ 20"
  shows "round_double (of_int k - 1 / 2 ^ 33) = of_int k - 1 / 2 ^ 33"
proof -
  have "0 \<le> k * 2 ^ 33 - 1" "k * 2 ^ 33 - 1 < 2 ^ 53" using assms by simp_all
  then have "round_double (of_int (k * 2 ^ 33 - 1) / 2 ^ 33) = of_int (k * 2 ^ 33 - 1) / 2 ^ 33"
    by (rule round_double_grid)
  moreover have "real_of_int (k * 2 ^ 33 - 1) / 2 ^ 33 = of_int k - 1 / 2 ^ 33"
    by (simp add: field_simps)
  ultimately show ?thesis by (simp only:)
qed

lemma double_below_one:
  assumes "round_double r = r" and "r < 1"
  shows "r \<le> 1 - 1 / 2 ^ 53"
proof (cases "r < 1 / 2")
  case True
  then show ?thesis by simp
next
  case False
  then have r: "0 < r" by simp
  have "binade r = - 1" using r False assms(2) by (intro binade_unique) simp_all
  then have "exponent r = - 1" using r by (simp add: exponent_pos)
  then have u: "ulp r = 1 / 2 ^ 53" by (simp add: ulp_def power_int_minus field_simps)
  define m where "m = rne (r / ulp r)"
  have m: "r = of_int m / 2 ^ 53" using assms(1) by (simp add: round_double_def m_def u)
  with assms(2) have "real_of_int m < of_int (2 ^ 53)" by (simp add: field_simps)
  then have "m < 2 ^ 53" by (simp only: of_int_less_iff)
  then have "m \<le> 2 ^ 53 - 1" by simp
  then have "real_of_int m \<le> of_int (2 ^ 53 - 1)" by (simp only: of_int_le_iff)
  then show ?thesis by (subst m) (simp add: field_simps)
qed

lemma round_double_largest_product:
  "round_double ((1 - 1 / 2 ^ 53) * 900000) = 900000 - 1 / 2 ^ 33"
proof -
  define x :: real where "x = (1 - 1 / 2 ^ 53) * 900000"
  have x: "0 < x" by (simp add: x_def)
  have "binade x = 19" using x by (intro binade_unique) (simp_all add: x_def)
  then have "exponent x = 19" using x by (simp add: exponent_pos)
  then have u: "ulp x = 1 / 2 ^ 33" by (simp add: ulp_def power_int_minus field_simps)
  have "\<bar>x / ulp x - of_int (900000 * 2 ^ 33 - 1)\<bar> < 1 / 2"
    unfolding u by (simp add: x_def)
  then have "rne (x / ulp x) = 900000 * 2 ^ 33 - 1" by (rule rne_unique)
  then have "round_double x = 900000 - 1 / 2 ^ 33" by (simp add: round_double_def u)
  then show ?thesis by (simp only: x_def)
qed

subsection \<open>The code that is generated\<close>

lemma dec_digit: "n < 10 \<Longrightarrow> dec n = [48 + n]"
  by (simp add: dec.simps)

lemma dec_step: "10 \<le> n \<Longrightarrow> dec n = dec (n div 10) @ [48 + n mod 10]"
  by (subst dec.simps) simp

lemma dec_six:
  assumes "100000 \<le> n" "n \<le> 999999"
  shows "dec n = [48 + n div 100000, 48 + n div 10000 mod 10, 48 + n div 1000 mod 10,
                  48 + n div 100 mod 10, 48 + n div 10 mod 10, 48 + n mod 10]"
proof -
  have a: "dec n = dec (n div 10) @ [48 + n mod 10]" using assms by (intro dec_step) simp
  have b: "dec (n div 10) = dec (n div 100) @ [48 + n div 10 mod 10]"
    using assms dec_step [of "n div 10"] by (simp add: div_mult2_eq [symmetric])
  have c: "dec (n div 100) = dec (n div 1000) @ [48 + n div 100 mod 10]"
    using assms dec_step [of "n div 100"] by (simp add: div_mult2_eq [symmetric])
  have d: "dec (n div 1000) = dec (n div 10000) @ [48 + n div 1000 mod 10]"
    using assms dec_step [of "n div 1000"] by (simp add: div_mult2_eq [symmetric])
  have e: "dec (n div 10000) = dec (n div 100000) @ [48 + n div 10000 mod 10]"
    using assms dec_step [of "n div 10000"] by (simp add: div_mult2_eq [symmetric])
  have f: "dec (n div 100000) = [48 + n div 100000]"
    using assms by (intro dec_digit) simp
  show ?thesis by (simp add: a b c d e f)
qed

lemma mod_ten_le: "(m::nat) mod 10 \<le> 9"
proof -
  have "m mod 10 < 10" by simp
  then show ?thesis by linarith
qed

lemma code_lower:
  assumes "0 \<le> r" and "of_int k \<le> 100000 + r * 900000" and "100000 \<le> k" and "k < 2 ^ 20"
  shows "k \<le> code_number r"
proof -
  have "round_double (of_int (k - 100000)) \<le> round_double (r * 900000)"
    using assms(2,3) by (intro round_double_mono) simp_all
  moreover have "round_double (of_int (k - 100000)) = of_int (k - 100000)"
    using assms(3,4) by (intro round_double_int) simp_all
  ultimately have "of_int k \<le> 100000 + round_double (r * 900000)" by simp
  then have "round_double (of_int k) \<le> round_double (100000 + round_double (r * 900000))"
    using assms(3) by (intro round_double_mono) simp_all
  moreover have "round_double (of_int k) = of_int k"
    using assms(3,4) by (intro round_double_int) simp_all
  ultimately show ?thesis by (simp add: code_number_def le_floor_iff)
qed

lemma code_upper:
  assumes "0 \<le> r" and "100000 + r * 900000 \<le> of_int k" and "k < 2 ^ 20"
  shows "code_number r \<le> k"
proof -
  have k: "100000 \<le> k"
  proof -
    have "(100000::real) \<le> of_int k" using assms(1,2) by simp
    then show ?thesis by simp
  qed
  have "round_double (r * 900000) \<le> round_double (of_int (k - 100000))"
    using assms(1,2) by (intro round_double_mono) simp_all
  moreover have "round_double (of_int (k - 100000)) = of_int (k - 100000)"
    using k assms(3) by (intro round_double_int) simp_all
  ultimately have "100000 + round_double (r * 900000) \<le> of_int k" by simp
  moreover have "0 \<le> round_double (r * 900000)"
    using assms(1) by (intro round_double_nonneg) simp
  ultimately have "round_double (100000 + round_double (r * 900000)) \<le> round_double (of_int k)"
    by (intro round_double_mono) simp_all
  moreover have "round_double (of_int k) = of_int k"
    using k assms(3) by (intro round_double_int) simp_all
  ultimately show ?thesis by (simp add: code_number_def floor_le_iff)
qed

lemma code_below:
  assumes "0 \<le> r" and "100000 + r * 900000 \<le> of_int k - 1 / 2 ^ 33" and "k \<le> 2 ^ 20"
  shows "code_number r < k"
proof -
  have k: "100001 \<le> k"
  proof -
    have "(100000::real) < of_int k" using assms(1,2) by simp
    then have "100000 < k" by simp
    then show ?thesis by simp
  qed
  have "round_double (r * 900000) \<le> round_double (of_int (k - 100000) - 1 / 2 ^ 33)"
    using assms(1,2) by (intro round_double_mono) simp_all
  moreover have "round_double (of_int (k - 100000) - 1 / 2 ^ 33) = of_int (k - 100000) - 1 / 2 ^ 33"
    using k assms(3) by (intro round_double_below_int) simp_all
  ultimately have "100000 + round_double (r * 900000) \<le> of_int k - 1 / 2 ^ 33" by simp
  moreover have "0 \<le> round_double (r * 900000)"
    using assms(1) by (intro round_double_nonneg) simp
  ultimately have "round_double (100000 + round_double (r * 900000))
      \<le> round_double (of_int k - 1 / 2 ^ 33)"
    by (intro round_double_mono) simp_all
  moreover have "round_double (of_int k - 1 / 2 ^ 33) = of_int k - 1 / 2 ^ 33"
    using k assms(3) by (intro round_double_below_int) simp_all
  ultimately have "round_double (100000 + round_double (r * 900000)) < of_int k" by simp
  then show ?thesis by (simp add: code_number_def floor_less_iff)
qed

lemma code_range_real:
  assumes "0 \<le> r" and "r < 1"
  shows "100000 \<le> code_number r" and "code_number r \<le> 1000000"
proof -
  show "100000 \<le> code_number r" using assms(1) by (intro code_lower) simp_all
  show "code_number r \<le> 1000000" using assms by (intro code_upper) simp_all
qed

lemma code_range:
  assumes "round_double r = r" and "0 \<le> r" and "r < 1"
  shows "100000 \<le> code_number r" and "code_number r \<le> 999999"
proof -
  show "100000 \<le> code_number r" using assms(2,3) by (rule code_range_real)
  have "r \<le> 1 - 1 / 2 ^ 53" using assms(1,3) by (rule double_below_one)
  then have "r * 900000 \<le> (1 - 1 / 2 ^ 53) * 900000" by simp
  with assms(2)
  have "round_double (r * 900000) \<le> round_double ((1 - 1 / 2 ^ 53) * 900000)"
    by (intro round_double_mono) simp_all
  then have "round_double (r * 900000) \<le> 900000 - 1 / 2 ^ 33"
    by (simp only: round_double_largest_product)
  then have "100000 + round_double (r * 900000) \<le> of_int 1000000 - 1 / 2 ^ 33"
    by simp
  moreover have "0 \<le> round_double (r * 900000)"
    using assms(2) by (intro round_double_nonneg) simp
  ultimately have "round_double (100000 + round_double (r * 900000))
      \<le> round_double (of_int 1000000 - 1 / 2 ^ 33)"
    by (intro round_double_mono) simp_all
  moreover have "round_double (of_int 1000000 - 1 / 2 ^ 33) = of_int 1000000 - 1 / 2 ^ 33"
    by (intro round_double_below_int) simp_all
  ultimately have "round_double (100000 + round_double (r * 900000)) < 1000000" by simp
  then have "code_number r < 1000000" by (simp add: code_number_def floor_less_iff)
  then show "code_number r \<le> 999999" by simp
qed

lemma code_is_dec:
  assumes "0 \<le> r" "r < 1"
  shows "generateVerifyCode r = dec (nat (code_number r))"
  using code_range_real [OF assms] by (simp add: generateVerifyCode_def number_toString_def)

lemma code_shape:
  assumes "round_double r = r" "0 \<le> r" "r < 1"
  shows "length (generateVerifyCode r) = 6"
    and "list_all (\<lambda>c. 48 \<le> c \<and> c \<le> 57) (generateVerifyCode r)"
    and "49 \<le> hd (generateVerifyCode r)"
proof -
  let ?n = "nat (code_number r)"
  have n: "100000 \<le> ?n" "?n \<le> 999999" using code_range [OF assms] by simp_all
  have c: "generateVerifyCode r = dec ?n" by (rule code_is_dec [OF assms(2,3)])
  note six = dec_six [OF n]
  show "length (generateVerifyCode r) = 6" by (simp add: c six)
  have "?n div 100000 < 10" using n by simp
  moreover have "1 \<le> ?n div 100000" using n by simp
  ultimately show "list_all (\<lambda>c. 48 \<le> c \<and> c \<le> 57) (generateVerifyCode r)"
    by (simp add: c six mod_ten_le)
  show "49 \<le> hd (generateVerifyCode r)" using \<open>1 \<le> ?n div 100000\<close> by (simp add: c six)
qed

text \<open>
  A real \<open>r\<close> of the interval that is no double may give 1000000, the sum being rounded
  upwards; the first digit is not \<open>0\<close> then either.
\<close>

lemma code_first_digit:
  assumes "0 \<le> r" "r < 1"
  shows "49 \<le> hd (generateVerifyCode r)"
proof -
  let ?n = "nat (code_number r)"
  have n: "100000 \<le> ?n" "?n \<le> 1000000" using code_range_real [OF assms] by simp_all
  have c: "generateVerifyCode r = dec ?n" by (rule code_is_dec [OF assms])
  show ?thesis
  proof (cases "?n = 1000000")
    case True
    have "dec 1000000 = [49, 48, 48, 48, 48, 48, 48]" by (simp add: dec_step dec_digit)
    then show ?thesis by (simp add: c True)
  next
    case False
    with n have m: "?n \<le> 999999" by simp
    have "1 \<le> ?n div 100000" using n by simp
    then show ?thesis by (simp add: c dec_six [OF n(1) m])
  qed
qed

text \<open>
  The code is the floor of \<open>100000 + 900000 r\<close> or, when the two roundings carry the sum
  over the next integer, one more: it is \<open>k\<close> wherever \<open>100000 + 900000 r\<close> lies between
  \<open>k\<close> and \<open>k + 1 - 2 ^ - 33\<close>, and nowhere outside \<open>k - 2 ^ - 33\<close> and \<open>k + 1\<close>.
\<close>

lemma code_near_floor:
  assumes "0 \<le> r" and "r < 1"
  shows "\<lfloor>100000 + r * 900000\<rfloor> \<le> code_number r"
    and "code_number r \<le> \<lfloor>100000 + r * 900000\<rfloor> + 1"
proof -
  define t where "t = \<lfloor>100000 + r * 900000\<rfloor>"
  have t: "of_int t \<le> 100000 + r * 900000" "100000 + r * 900000 < of_int t + 1"
    unfolding t_def by linarith+
  have lo: "100000 \<le> t" using assms(1) by (simp add: t_def le_floor_iff)
  have hi: "t < 1000000" using assms(2) by (simp add: t_def floor_less_iff)
  have "t \<le> code_number r" using assms(1) t(1) lo hi by (intro code_lower) simp_all
  then show "\<lfloor>100000 + r * 900000\<rfloor> \<le> code_number r" by (simp only: t_def)
  have "code_number r \<le> t + 1" using assms(1) t(2) hi by (intro code_upper) simp_all
  then show "code_number r \<le> \<lfloor>100000 + r * 900000\<rfloor> + 1" by (simp only: t_def)
qed

lemma code_interval:
  assumes "0 \<le> r" and "r < 1"
    and "of_int k \<le> 100000 + r * 900000" and "100000 + r * 900000 \<le> of_int k + 1 - 1 / 2 ^ 33"
  shows "code_number r = k"
proof -
  have "100000 + r * 900000 < of_int k + 1" using assms(4) by simp
  with assms(3) have k: "k = \<lfloor>100000 + r * 900000\<rfloor>" by linarith
  have hi: "k < 1000000" using assms(2) by (simp add: k floor_less_iff)
  have "k \<le> code_number r" using code_near_floor(1) [OF assms(1,2)] by (simp only: k)
  moreover have "code_number r < k + 1" using assms(1,4) hi by (intro code_below) simp_all
  ultimately show ?thesis by simp
qed

lemma code_interval_conv:
  assumes "0 \<le> r" and "r < 1" and "code_number r = k"
  shows "of_int k - 1 / 2 ^ 33 < 100000 + r * 900000" and "100000 + r * 900000 < of_int k + 1"
proof -
  define t where "t = \<lfloor>100000 + r * 900000\<rfloor>"
  have t: "of_int t \<le> 100000 + r * 900000" "100000 + r * 900000 < of_int t + 1"
    unfolding t_def by linarith+
  have b: "t \<le> k" "k \<le> t + 1"
    using code_near_floor [OF assms(1,2)] by (simp_all only: t_def assms(3))
  from b(1) have "real_of_int t \<le> of_int k" by (simp only: of_int_le_iff)
  with t(2) show "100000 + r * 900000 < of_int k + 1" by simp
  show "of_int k - 1 / 2 ^ 33 < 100000 + r * 900000"
  proof (cases "k = t")
    case True
    with t(1) show ?thesis by simp
  next
    case False
    with b have k: "k = t + 1" by simp
    show ?thesis
    proof (rule ccontr)
      assume "\<not> of_int k - 1 / 2 ^ 33 < 100000 + r * 900000"
      then have "100000 + r * 900000 \<le> of_int t + 1 - 1 / 2 ^ 33" by (simp add: k)
      with assms(1,2) t(1) have "code_number r = t" by (rule code_interval)
      with assms(3) False show False by simp
    qed
  qed
qed

text \<open>
  The code is not always the floor of the exact sum: for \<open>r = 150119987579 / 2 ^ 52\<close> the
  product is a double, about 29.9999999999967, and the sum is rounded to 100030.
\<close>

lemma code_number_rounds_up:
  "code_number (150119987579 / 2 ^ 52) = 100030"
  and "\<lfloor>100000 + 150119987579 / 2 ^ 52 * 900000 :: real\<rfloor> = 100029"
proof -
  define p :: real where "p = 150119987579 / 2 ^ 52 * 900000"
  have p: "0 < p" by (simp add: p_def)
  have "binade p = 4" using p by (intro binade_unique) (simp_all add: p_def)
  then have "exponent p = 4" using p by (simp add: exponent_pos)
  then have u: "ulp p = 1 / 2 ^ 48" by (simp add: ulp_def power_int_minus field_simps)
  have "p / ulp p = of_int 8444249301318750" unfolding u by (simp add: p_def)
  then have rp: "round_double p = p" by (rule round_double_fix)
  define s :: real where "s = 100000 + p"
  have s: "0 < s" by (simp add: s_def p_def)
  have "binade s = 16" using s by (intro binade_unique) (simp_all add: s_def p_def)
  then have "exponent s = 16" using s by (simp add: exponent_pos)
  then have v: "ulp s = 1 / 2 ^ 36" by (simp add: ulp_def power_int_minus field_simps)
  have "\<bar>s / ulp s - of_int (100030 * 2 ^ 36)\<bar> < 1 / 2"
    unfolding v by (simp add: s_def p_def)
  then have "rne (s / ulp s) = 100030 * 2 ^ 36" by (rule rne_unique)
  then have "round_double s = 100030" by (simp add: round_double_def v)
  then have "\<lfloor>round_double (100000 + round_double p)\<rfloor> = 100030"
    by (simp only: rp s_def [symmetric]) simp
  then show "code_number (150119987579 / 2 ^ 52) = 100030"
    by (simp only: code_number_def p_def)
  show "\<lfloor>100000 + 150119987579 / 2 ^ 52 * 900000 :: real\<rfloor> = 100029"
    by (simp add: floor_eq_iff)
qed

lemma code_number_half: "round_double (1 / 2) = 1 / 2" "code_number (1 / 2) = 550000"
proof -
  have "round_double (of_int (2 ^ 32) / 2 ^ 33) = of_int (2 ^ 32) / 2 ^ 33"
    by (intro round_double_grid) simp_all
  then show "round_double (1 / 2) = 1 / 2" by simp
  have "round_double (of_int 450000) = of_int 450000" by (intro round_double_int) simp_all
  moreover have "round_double (of_int 550000) = of_int 550000" by (intro round_double_int) simp_all
  ultimately show "code_number (1 / 2) = 550000" by (simp add: code_number_def)
qed

text \<open>
  Claim C4, as the code has it. For a well-formed address of a registered account and a
  double \<open>r\<close> of \<open>Math.random()\<close>, \<open>forgetPassword\<close> draws the number
  \<open>Math.floor(100000 + r * 900000)\<close>, computed in doubles, which lies between 100000 and
  999999, and the code is its decimal writing: six digits, the first of them never \<open>0\<close>.
  The number \<open>k\<close> is drawn whenever \<open>k \<le> 100000 + 900000 r \<le> k + 1 - 2 ^ - 33\<close>, and only
  when \<open>k - 2 ^ - 33 < 100000 + 900000 r < k + 1\<close>: up to the rounding of the doubles, each
  number of the range is drawn on an interval of \<open>r\<close> of length 1/900000, so a uniform
  \<open>r\<close> gives a uniform code. The entry stored under \<open>reset_<email>\<close> holds this code, the
  expiry \<open>now + 300000\<close> ms (five minutes) and the account's id, whatever was stored there
  before and whatever the mail utility answers; no other key of the cache changes.
\<close>

theorem forgetPassword_stores_code:
  assumes "email \<noteq> []" and "email_regex_test email"
    and "find (\<lambda>u. user_email u = email) (users s) = Some u"
    and "round_double r = r" and "0 \<le> r" and "r < 1"
  shows "100000 \<le> code_number r \<and> code_number r \<le> 999999 \<and>
         generateVerifyCode r = dec (nat (code_number r)) \<and>
         length (generateVerifyCode r) = 6 \<and>
         list_all (\<lambda>c. 48 \<le> c \<and> c \<le> 57) (generateVerifyCode r) \<and>
         49 \<le> hd (generateVerifyCode r) \<and>
         (\<forall>k. of_int k \<le> 100000 + r * 900000 \<and>
                100000 + r * 900000 \<le> of_int k + 1 - 1 / 2 ^ 33 \<longrightarrow> code_number r = k) \<and>
         (\<forall>k. code_number r = k \<longrightarrow>
                of_int k - 1 / 2 ^ 33 < 100000 + r * 900000 \<and>
                100000 + r * 900000 < of_int k + 1) \<and>
         verifyCodeCache (snd (forgetPassword s now r mail email)) (reset_key email) =
           Some \<lparr>code = generateVerifyCode r, expireTime = now + 300000, userId = user_id u\<rparr> \<and>
         (\<forall>k. k \<noteq> reset_key email \<longrightarrow>
                verifyCodeCache (snd (forgetPassword s now r mail email)) k = verifyCodeCache s k)"
proof -
  have stored: "verifyCodeCache (snd (forgetPassword s now r mail email)) =
      (\<lambda>k. if k = reset_key email
            then Some \<lparr>code = generateVerifyCode r, expireTime = now + 300000, userId = user_id u\<rparr>
            else verifyCodeCache s k)"
    using assms(1-3)
    by (cases mail) (simp_all add: forgetPassword_def Let_def cache_set_def CODE_EXPIRE_MINUTES_def)
  note range = code_range [OF assms(4-6)]
  note writing = code_is_dec [OF assms(5,6)]
  note shape = code_shape [OF assms(4-6)]
  have inside: "\<forall>k. of_int k \<le> 100000 + r * 900000 \<and>
      100000 + r * 900000 \<le> of_int k + 1 - 1 / 2 ^ 33 \<longrightarrow> code_number r = k"
    using code_interval [OF assms(5,6)] by blast
  have outside: "\<forall>k. code_number r = k \<longrightarrow>
      of_int k - 1 / 2 ^ 33 < 100000 + r * 900000 \<and> 100000 + r * 900000 < of_int k + 1"
    using code_interval_conv [OF assms(5,6)] by blast
  have entry: "verifyCodeCache (snd (forgetPassword s now r mail email)) (reset_key email) =
      Some \<lparr>code = generateVerifyCode r, expireTime = now + 300000, userId = user_id u\<rparr>"
    by (simp add: stored)
  have others: "\<forall>k. k \<noteq> reset_key email \<longrightarrow>
      verifyCodeCache (snd (forgetPassword s now r mail email)) k = verifyCodeCache s k"
    by (simp add: stored)
  show ?thesis
    by (intro conjI) (fact range writing shape inside outside entry others)+
qed

theorem forgetPassword_stores_code_witness:
  "round_double (1 / 2) = 1 / 2 \<and> code_number (1 / 2) = 550000 \<and>
   generateVerifyCode (1 / 2) = ascii ''550000'' \<and>
   verifyCodeCache (snd (forgetPassword store1 1000 (1 / 2) Sent (ascii ''bob@x.com'')))
       (reset_key (ascii ''bob@x.com'')) =
     Some \<lparr>code = ascii ''550000'', expireTime = 301000, userId = 1\<rparr>"
proof -
  have e: "email_regex_test (ascii ''bob@x.com'')"
    by (simp add: email_regex_test_def ascii_def not_space_or_at_def white_space_def)
  have f: "find (\<lambda>u. user_email u = ascii ''bob@x.com'') (users store1) = Some bob"
    by (simp add: store1_def store0_def cache_set_def bob_def)
  have n: "ascii ''bob@x.com'' \<noteq> []" by (simp add: ascii_def)
  have c: "dec 550000 = ascii ''550000''" by (simp add: dec_six ascii_def)
  note d = code_number_half
  have g: "(0::real) \<le> 1 / 2" "(1::real) / 2 < 1" by simp_all
  note t = forgetPassword_stores_code
    [where r = "1 / 2" and now = 1000 and mail = Sent, OF n e f d(1) g]
  from t have "generateVerifyCode (1 / 2) = dec (nat (code_number (1 / 2)))" by blast
  then have w: "generateVerifyCode (1 / 2) = ascii ''550000''" by (simp add: d c)
  from t have "verifyCodeCache (snd (forgetPassword store1 1000 (1 / 2) Sent (ascii ''bob@x.com'')))
       (reset_key (ascii ''bob@x.com'')) =
     Some \<lparr>code = generateVerifyCode (1 / 2), expireTime = 1000 + 300000, userId = user_id bob\<rparr>"
    by blast
  then show ?thesis by (simp add: w d bob_def)
qed

text \<open>
  The claim's range 000000 to 999999 is not the code's: no value of \<open>Math.random()\<close>
  gives the code \<open>012345\<close>.
\<close>

theorem leading_zero_code_counterexample:
  "\<not> (\<exists>r::real. 0 \<le> r \<and> r < 1 \<and> generateVerifyCode r = ascii ''012345'')"
proof
  assume "\<exists>r::real. 0 \<le> r \<and> r < 1 \<and> generateVerifyCode r = ascii ''012345''"
  then obtain r :: real where r: "0 \<le> r" "r < 1" and c: "generateVerifyCode r = ascii ''012345''"
    by blast
  from code_first_digit [OF r] show False by (simp add: c ascii_def)
qed

subsection \<open>Consuming a code\<close>

lemma messages_distinct:
  "msg_code_expired \<noteq> msg_code_missing" "msg_code_expired \<noteq> msg_code_wrong"
  "msg_code_expired \<noteq> msg_user_missing"
  by (simp_all add: msg_code_expired_def msg_code_missing_def msg_code_wrong_def
      msg_user_missing_def)

lemma cache_delete_lookup [simp]:
  "verifyCodeCache (cache_delete k s) k' = (if k' = k then None else verifyCodeCache s k')"
  by (simp add: cache_delete_def)

lemma cache_delete_users [simp]: "users (cache_delete k s) = users s"
  by (simp add: cache_delete_def)

lemma consumeCode_missing:
  "verifyCodeCache s (reset_key email) = None \<Longrightarrow>
   consumeCode hash s now seed email c pw = (Inl msg_code_missing, s)"
  by (simp add: consumeCode_def)

lemma consumeCode_expired:
  "verifyCodeCache s (reset_key email) = Some e \<Longrightarrow> expireTime e < now \<Longrightarrow>
   consumeCode hash s now seed email c pw = (Inl msg_code_expired, cache_delete (reset_key email) s)"
  by (simp add: consumeCode_def)

lemma consumeCode_wrong:
  "verifyCodeCache s (reset_key email) = Some e \<Longrightarrow> \<not> expireTime e < now \<Longrightarrow> c \<noteq> code e \<Longrightarrow>
   consumeCode hash s now seed email c pw = (Inl msg_code_wrong, s)"
  by (auto simp add: consumeCode_def)

lemma consumeCode_no_user:
  "verifyCodeCache s (reset_key email) = Some e \<Longrightarrow> \<not> expireTime e < now \<Longrightarrow>
   find (\<lambda>u. user_id u = userId e) (users s) = None \<Longrightarrow>
   consumeCode hash s now seed email (code e) pw = (Inl msg_user_missing, s)"
  by (simp add: consumeCode_def)

lemma consumeCode_accepts:
  "verifyCodeCache s (reset_key email) = Some e \<Longrightarrow> \<not> expireTime e < now \<Longrightarrow>
   find (\<lambda>u. user_id u = userId e) (users s) = Some u \<Longrightarrow>
   consumeCode hash s now seed email (code e) pw =
     (Inr u, cache_delete (reset_key email) (s\<lparr>users := update_password hash seed pw u (users s)\<rparr>))"
  by (simp add: consumeCode_def)

text \<open>
  On input that passes its validation, \<open>resetPassword\<close> is the consumption of the code.
\<close>

lemma resetPassword_valid_input:
  assumes "email \<noteq> []" and "email_regex_test email"
    and "length verifyCode = 6" and "6 \<le> length newPassword"
  shows "resetPassword hash s now seed email verifyCode newPassword =
           (case consumeCode hash s now seed email verifyCode newPassword of
              (Inl m, s') \<Rightarrow> (Inl m, s')
            | (Inr u, s') \<Rightarrow> (Inr \<lparr>success = True, message = msg_reset_done\<rparr>, s'))"
proof -
  have "verifyCode \<noteq> []" "newPassword \<noteq> []" using assms(3,4) by auto
  with assms show ?thesis by (simp add: resetPassword_def)
qed

text \<open>
  Claim C5. While the entry of an address exists and has not expired, consuming with a
  code other than the stored one fails with the mismatch message and returns the state
  as it was (so does \<open>resetPassword\<close>, when its input passes the validation). So a later
  consumption with the stored code does what it would have done
  without the failed attempt: before the expiry it is accepted, and changes the password
  of the account the entry is bound to.
\<close>

theorem wrong_code_keeps_entry:
  assumes "verifyCodeCache s (reset_key email) = Some e"
    and "\<not> expireTime e < now"
    and "submitted \<noteq> code e"
  shows "consumeCode hash s now seed email submitted pw = (Inl msg_code_wrong, s) \<and>
         (email \<noteq> [] \<longrightarrow> email_regex_test email \<longrightarrow> length submitted = 6 \<longrightarrow> 6 \<le> length pw \<longrightarrow>
            resetPassword hash s now seed email submitted pw = (Inl msg_code_wrong, s)) \<and>
         consumeCode hash (snd (consumeCode hash s now seed email submitted pw))
             now' seed' email (code e) pw' =
           consumeCode hash s now' seed' email (code e) pw' \<and>
         (\<not> expireTime e < now' \<longrightarrow>
          find (\<lambda>u. user_id u = userId e) (users s) = Some u \<longrightarrow>
          fst (consumeCode hash (snd (consumeCode hash s now seed email submitted pw))
                 now' seed' email (code e) pw') = Inr u)"
  using assms by (simp add: consumeCode_wrong consumeCode_accepts resetPassword_valid_input)

theorem wrong_code_keeps_entry_witness:
  "consumeCode example_hash store1 1000 [] (ascii ''bob@x.com'') (ascii ''654321'')
      (ascii ''newpass1'') = (Inl msg_code_wrong, store1) \<and>
   resetPassword example_hash store1 1000 [] (ascii ''bob@x.com'') (ascii ''654321'')
      (ascii ''newpass1'') = (Inl msg_code_wrong, store1) \<and>
   fst (consumeCode example_hash
          (snd (consumeCode example_hash store1 1000 [] (ascii ''bob@x.com'')
                  (ascii ''654321'') (ascii ''newpass1'')))
          2000 [] (ascii ''bob@x.com'') (ascii ''123456'') (ascii ''newpass1'')) = Inr bob"
proof -
  let ?e = "\<lparr>code = ascii ''123456'', expireTime = 300000, userId = 1\<rparr>"
  have a: "verifyCodeCache store1 (reset_key (ascii ''bob@x.com'')) = Some ?e"
    by (simp add: store1_def cache_set_def)
  have b: "\<not> expireTime ?e < 1000" by simp
  have c: "ascii ''654321'' \<noteq> code ?e" by (simp add: ascii_def)
  have f: "find (\<lambda>u. user_id u = userId ?e) (users store1) = Some bob"
    by (simp add: store1_def store0_def cache_set_def bob_def)
  have v: "ascii ''bob@x.com'' \<noteq> []" "email_regex_test (ascii ''bob@x.com'')"
    "length (ascii ''654321'') = 6" "6 \<le> length (ascii ''newpass1'')"
    by (simp_all add: email_regex_test_def ascii_def not_space_or_at_def white_space_def)
  note w = wrong_code_keeps_entry [OF a b c, where hash = example_hash and seed = "[]"
        and pw = "ascii ''newpass1''" and now' = 2000 and u = bob and seed' = "[]"
        and pw' = "ascii ''newpass1''"]
  note w1 = w [THEN conjunct1]
    and w2 = w [THEN conjunct2, THEN conjunct1, rule_format, OF v]
    and w3 = w [THEN conjunct2, THEN conjunct2, THEN conjunct2]
  show ?thesis
    using w1 w2 w3 f by simp
qed

text \<open>
  Claim C6. After a consumption that succeeded the entry is gone, and consuming again
  fails with the message of a missing code. A consumption after the expiry time deletes
  the entry and fails with the message of an expired code, and any later consumption
  fails with the message of a missing code. An entry disappears in exactly these two
  cases, and no other key of the cache is touched. For \<open>resetPassword\<close> as a whole: after
  a call that succeeded, a second call with the same code fails with the message of a
  missing code.
\<close>

theorem entry_deleted_on_success_or_expiry:
  "(fst (consumeCode hash s now seed email c pw) = Inr u \<longrightarrow>
      verifyCodeCache (snd (consumeCode hash s now seed email c pw)) (reset_key email) = None \<and>
      fst (consumeCode hash (snd (consumeCode hash s now seed email c pw)) now' seed' email c pw')
        = Inl msg_code_missing) \<and>
   (verifyCodeCache s (reset_key email) = Some e \<longrightarrow> expireTime e < now \<longrightarrow>
      consumeCode hash s now seed email c pw =
        (Inl msg_code_expired, cache_delete (reset_key email) s) \<and>
      verifyCodeCache (snd (consumeCode hash s now seed email c pw)) (reset_key email) = None \<and>
      fst (consumeCode hash (snd (consumeCode hash s now seed email c pw)) now' seed' email c' pw')
        = Inl msg_code_missing) \<and>
   ((verifyCodeCache s (reset_key email) \<noteq> None \<and>
     verifyCodeCache (snd (consumeCode hash s now seed email c pw)) (reset_key email) = None)
    \<longleftrightarrow> (\<exists>v. fst (consumeCode hash s now seed email c pw) = Inr v) \<or>
         fst (consumeCode hash s now seed email c pw) = Inl msg_code_expired) \<and>
   (\<forall>k. k \<noteq> reset_key email \<longrightarrow>
      verifyCodeCache (snd (consumeCode hash s now seed email c pw)) k = verifyCodeCache s k) \<and>
   (email \<noteq> [] \<longrightarrow> email_regex_test email \<longrightarrow> length c = 6 \<longrightarrow> 6 \<le> length pw \<longrightarrow>
    6 \<le> length pw' \<longrightarrow>
    fst (resetPassword hash s now seed email c pw) =
      Inr \<lparr>success = True, message = msg_reset_done\<rparr> \<longrightarrow>
    fst (resetPassword hash (snd (resetPassword hash s now seed email c pw)) now' seed' email c pw')
      = Inl msg_code_missing)"
proof -
  have main:
    "(fst (consumeCode hash s now seed email c pw) = Inr u \<longrightarrow>
        verifyCodeCache (snd (consumeCode hash s now seed email c pw)) (reset_key email) = None \<and>
        fst (consumeCode hash (snd (consumeCode hash s now seed email c pw)) now' seed' email c pw')
          = Inl msg_code_missing) \<and>
     (verifyCodeCache s (reset_key email) = Some e \<longrightarrow> expireTime e < now \<longrightarrow>
        consumeCode hash s now seed email c pw =
          (Inl msg_code_expired, cache_delete (reset_key email) s) \<and>
        verifyCodeCache (snd (consumeCode hash s now seed email c pw)) (reset_key email) = None \<and>
        fst (consumeCode hash (snd (consumeCode hash s now seed email c pw)) now' seed' email c' pw')
          = Inl msg_code_missing) \<and>
     ((verifyCodeCache s (reset_key email) \<noteq> None \<and>
       verifyCodeCache (snd (consumeCode hash s now seed email c pw)) (reset_key email) = None)
      \<longleftrightarrow> (\<exists>v. fst (consumeCode hash s now seed email c pw) = Inr v) \<or>
           fst (consumeCode hash s now seed email c pw) = Inl msg_code_expired) \<and>
     (\<forall>k. k \<noteq> reset_key email \<longrightarrow>
        verifyCodeCache (snd (consumeCode hash s now seed email c pw)) k = verifyCodeCache s k)"
    for u
  proof (cases "verifyCodeCache s (reset_key email)")
    case None
    then show ?thesis
      using messages_distinct by (simp add: consumeCode_missing)
  next
    case (Some e')
    show ?thesis
    proof (cases "expireTime e' < now")
      case True
      with Some show ?thesis by (simp add: consumeCode_expired consumeCode_missing)
    next
      case live: False
      show ?thesis
      proof (cases "c = code e'")
        case False
        with Some live show ?thesis
          using messages_distinct by (auto simp add: consumeCode_wrong)
      next
        case True
        show ?thesis
        proof (cases "find (\<lambda>u. user_id u = userId e') (users s)")
          case None
          with Some live True show ?thesis
            using messages_distinct by (auto simp add: consumeCode_no_user)
        next
          case (Some v)
          with \<open>verifyCodeCache s (reset_key email) = Some e'\<close> live True show ?thesis
            by (auto simp add: consumeCode_accepts consumeCode_missing)
        qed
      qed
    qed
  qed
  have reset:
    "fst (resetPassword hash (snd (resetPassword hash s now seed email c pw)) now' seed' email c pw')
       = Inl msg_code_missing"
    if valid: "email \<noteq> []" "email_regex_test email" "length c = 6" "6 \<le> length pw"
      and valid': "6 \<le> length pw'"
      and ok: "fst (resetPassword hash s now seed email c pw) =
                 Inr \<lparr>success = True, message = msg_reset_done\<rparr>"
  proof -
    obtain r s' where cs: "consumeCode hash s now seed email c pw = (r, s')"
      by (cases "consumeCode hash s now seed email c pw")
    from ok cs obtain v where r: "r = Inr v"
      by (cases r) (simp_all add: resetPassword_valid_input [OF valid])
    have s': "snd (resetPassword hash s now seed email c pw) = s'"
      by (simp add: resetPassword_valid_input [OF valid] cs r)
    from main [of v] cs r have "fst (consumeCode hash s' now' seed' email c pw') = Inl msg_code_missing"
      by simp
    then show ?thesis
      by (auto simp add: s' resetPassword_valid_input [OF valid(1,2,3) valid']
          split: prod.splits sum.splits)
  qed
  from main [of u] reset show ?thesis by blast
qed

theorem entry_deleted_on_success_or_expiry_witness:
  "fst (consumeCode example_hash store1 2000 [] (ascii ''bob@x.com'') (ascii ''123456'')
          (ascii ''newpass1'')) = Inr bob \<and>
   fst (consumeCode example_hash
          (snd (consumeCode example_hash store1 2000 [] (ascii ''bob@x.com'')
                  (ascii ''123456'') (ascii ''newpass1'')))
          3000 [] (ascii ''bob@x.com'') (ascii ''123456'') (ascii ''newpass1'')) = Inl msg_code_missing \<and>
   fst (consumeCode example_hash store1 300001 [] (ascii ''bob@x.com'') (ascii ''123456'')
          (ascii ''newpass1'')) = Inl msg_code_expired \<and>
   fst (consumeCode example_hash
          (snd (consumeCode example_hash store1 300001 [] (ascii ''bob@x.com'')
                  (ascii ''123456'') (ascii ''newpass1'')))
          300002 [] (ascii ''bob@x.com'') (ascii ''123456'') (ascii ''newpass1'')) = Inl msg_code_missing"
proof -
  let ?e = "\<lparr>code = ascii ''123456'', expireTime = 300000, userId = 1\<rparr>"
  let ?h = example_hash
  have a: "verifyCodeCache store1 (reset_key (ascii ''bob@x.com'')) = Some ?e"
    by (simp add: store1_def cache_set_def)
  have f: "find (\<lambda>u. user_id u = userId ?e) (users store1) = Some bob"
    by (simp add: store1_def store0_def cache_set_def bob_def)
  have ok: "fst (consumeCode ?h store1 2000 [] (ascii ''bob@x.com'')
      (ascii ''123456'') (ascii ''newpass1'')) = Inr bob"
    using consumeCode_accepts [OF a _ f, of 2000 ?h "[]" "ascii ''newpass1''"] by simp
  note first = entry_deleted_on_success_or_expiry [where hash = ?h and s = store1
        and now = 2000 and seed = "[]" and email = "ascii ''bob@x.com''"
        and c = "ascii ''123456''" and pw = "ascii ''newpass1''" and u = bob and now' = 3000
        and seed' = "[]" and pw' = "ascii ''newpass1''" and e = ?e and c' = "ascii ''123456''",
        THEN conjunct1, rule_format, OF ok]
  have late: "expireTime ?e < 300001" by simp
  note second = entry_deleted_on_success_or_expiry [where hash = ?h and s = store1
        and now = 300001 and seed = "[]" and email = "ascii ''bob@x.com''"
        and c = "ascii ''123456''" and pw = "ascii ''newpass1''" and u = bob and now' = 300002
        and seed' = "[]" and pw' = "ascii ''newpass1''" and e = ?e and c' = "ascii ''123456''",
        THEN conjunct2, THEN conjunct1, rule_format, OF a late]
  show ?thesis
    using ok first [THEN conjunct2] second [THEN conjunct1]
      second [THEN conjunct2, THEN conjunct2]
    by simp
qed

subsection \<open>The response of forgetPassword\<close>

text \<open>
  Claim C8, as the code has it. For a well-formed address: when no account has it, the
  call returns the success response and leaves the state as it was (no code is stored,
  no mail handed over); when an account has it and the verification mail is sent, the
  call returns the same success response; when the mail is not sent, the call fails.
\<close>

theorem forgetPassword_response:
  assumes "email \<noteq> []" and "email_regex_test email"
  shows "(find (\<lambda>u. user_email u = email) (users s) = None \<longrightarrow>
            forgetPassword s now r mail email =
              (Inr \<lparr>success = True, message = msg_code_sent\<rparr>, s)) \<and>
         (find (\<lambda>u. user_email u = email) (users s) \<noteq> None \<longrightarrow>
            fst (forgetPassword s now r Sent email) =
              Inr \<lparr>success = True, message = msg_code_sent\<rparr> \<and>
            (mail \<noteq> Sent \<longrightarrow> (\<exists>m. fst (forgetPassword s now r mail email) = Inl m)))"
  using assms by (cases mail) (auto simp add: forgetPassword_def Let_def)

theorem forgetPassword_response_witness:
  "forgetPassword store0 1000 (1 / 2) Sent (ascii ''eve@x.com'') =
     (Inr \<lparr>success = True, message = msg_code_sent\<rparr>, store0) \<and>
   fst (forgetPassword store0 1000 (1 / 2) Sent (ascii ''bob@x.com'')) =
     Inr \<lparr>success = True, message = msg_code_sent\<rparr>"
proof -
  have e1: "email_regex_test (ascii ''eve@x.com'')"
    by (simp add: email_regex_test_def ascii_def not_space_or_at_def white_space_def)
  have e2: "email_regex_test (ascii ''bob@x.com'')"
    by (simp add: email_regex_test_def ascii_def not_space_or_at_def white_space_def)
  have n1: "ascii ''eve@x.com'' \<noteq> []" and n2: "ascii ''bob@x.com'' \<noteq> []"
    by (simp_all add: ascii_def)
  have f1: "find (\<lambda>u. user_email u = ascii ''eve@x.com'') (users store0) = None"
    by (simp add: store0_def bob_def carol_def ascii_def)
  have f2: "find (\<lambda>u. user_email u = ascii ''bob@x.com'') (users store0) \<noteq> None"
    by (simp add: store0_def bob_def)
  show ?thesis
    using forgetPassword_response [OF n1 e1, of store0 1000 "1 / 2" Sent]
      forgetPassword_response [OF n2 e2, of store0 1000 "1 / 2" Sent] f1 f2
    by simp
qed

text \<open>
  The response is not the same in every case: with a mail utility that reports a
  failure, the call fails for the address of \<open>bob\<close> and succeeds for an unknown address.
\<close>

theorem mail_failure_counterexample:
  "fst (forgetPassword store0 1000 (1 / 2) (NotSent (ascii ''connection refused''))
          (ascii ''bob@x.com'')) = Inl (msg_mail_failed @ ascii ''connection refused'') \<and>
   fst (forgetPassword store0 1000 (1 / 2) (NotSent (ascii ''connection refused''))
          (ascii ''eve@x.com'')) = Inr \<lparr>success = True, message = msg_code_sent\<rparr>"
proof -
  have e1: "email_regex_test (ascii ''eve@x.com'')"
    by (simp add: email_regex_test_def ascii_def not_space_or_at_def white_space_def)
  have e2: "email_regex_test (ascii ''bob@x.com'')"
    by (simp add: email_regex_test_def ascii_def not_space_or_at_def white_space_def)
  have f1: "find (\<lambda>u. user_email u = ascii ''eve@x.com'') (users store0) = None"
    by (simp add: store0_def bob_def carol_def ascii_def)
  have f2: "find (\<lambda>u. user_email u = ascii ''bob@x.com'') (users store0) = Some bob"
    by (simp add: store0_def bob_def)
  have n1: "ascii ''eve@x.com'' \<noteq> []" and n2: "ascii ''bob@x.com'' \<noteq> []"
    by (simp_all add: ascii_def)
  show ?thesis
    using e1 e2 f1 f2 n1 n2 by (simp add: forgetPassword_def Let_def)
qed

section \<open>Properties of the login\<close>

lemma status_never_number: "\<not> strict_equals (JStr st) (JNum n)"
  by (simp add: strict_equals_def)

text \<open>
  Claim C2 asks that the login of a disabled account fails with the message of a
  disabled account. The code compares the status, the string \<open>'0'\<close>, with the number
  \<open>0\<close>: a disabled account with the right password is logged in.
\<close>

theorem disabled_account_logs_in:
  assumes "name \<noteq> []" and "password \<noteq> []"
    and "find (\<lambda>u. user_name u = name \<or> user_email u = name) (users s) = Some u"
    and "user_status u = ascii ''0''"
    and "compareSync password (user_password u) = Inr True"
  shows "loginUser compareSync s name password =
           Inr \<lparr>login_user = filterUserSensitiveFields u,
                login_role = role_of (role_users s) (user_id u)\<rparr>"
  using assms by (simp add: loginUser_def status_never_number validatePassword_def)

theorem disabled_account_logs_in_witness:
  "loginUser example_compare store0 (ascii ''carol'') (ascii ''secret2'') =
     Inr \<lparr>login_user = filterUserSensitiveFields carol, login_role = Some 2\<rparr>"
proof -
  have f: "find (\<lambda>u. user_name u = ascii ''carol'' \<or> user_email u = ascii ''carol'') (users store0)
             = Some carol"
    by (simp add: store0_def bob_def carol_def ascii_def)
  have c: "example_compare (ascii ''secret2'') (user_password carol) = Inr True"
    by (simp add: example_compare_def carol_def ascii_def)
  have n: "ascii ''carol'' \<noteq> []" "ascii ''secret2'' \<noteq> []" by (simp_all add: ascii_def)
  have st: "user_status carol = ascii ''0''" by (simp add: carol_def)
  have r: "role_of (role_users store0) (user_id carol) = Some 2"
    by (simp add: role_of_def store0_def carol_def)
  show ?thesis
    using disabled_account_logs_in [where compareSync = example_compare, OF n f st c] r
    by simp
qed

text \<open>
  Claim C9. A login with an identifier that no account has and a login with the
  identifier of an account and a password that does not match its digest fail with one
  and the same message.
\<close>

theorem login_failures_alike:
  assumes "name \<noteq> []" and "password \<noteq> []" and "name' \<noteq> []" and "password' \<noteq> []"
    and "find (\<lambda>u. user_name u = name \<or> user_email u = name) (users s) = None"
    and "find (\<lambda>u. user_name u = name' \<or> user_email u = name') (users s) = Some u"
    and "compareSync password' (user_password u) = Inr False"
  shows "loginUser compareSync s name password = Inl msg_login_invalid \<and>
         loginUser compareSync s name' password' = Inl msg_login_invalid"
  using assms by (simp add: loginUser_def status_never_number validatePassword_def)

theorem login_failures_alike_witness:
  "loginUser example_compare store0 (ascii ''nobody'') (ascii ''x'') = Inl msg_login_invalid \<and>
   loginUser example_compare store0 (ascii ''bob'') (ascii ''wrongpw'') = Inl msg_login_invalid"
proof -
  have f1: "find (\<lambda>u. user_name u = ascii ''nobody'' \<or> user_email u = ascii ''nobody'')
              (users store0) = None"
    by (simp add: store0_def bob_def carol_def ascii_def)
  have f2: "find (\<lambda>u. user_name u = ascii ''bob'' \<or> user_email u = ascii ''bob'') (users store0)
              = Some bob"
    by (simp add: store0_def bob_def)
  have c: "example_compare (ascii ''wrongpw'') (user_password bob) = Inr False"
    by (simp add: example_compare_def bob_def ascii_def)
  have n: "ascii ''nobody'' \<noteq> []" "ascii ''x'' \<noteq> []" "ascii ''bob'' \<noteq> []" "ascii ''wrongpw'' \<noteq> []"
    by (simp_all add: ascii_def)
  show ?thesis
    by (rule login_failures_alike [where compareSync = example_compare, OF n f1 f2 c])
qed

section \<open>Properties of the tokens\<close>

subsection \<open>Issuing a token\<close>

text \<open>
  Claim C3, as the code has it. \<open>generateToken\<close> fails with its own message for every
  value that is not a plain object: \<open>undefined\<close>, \<open>null\<close>, a boolean, a number, a string,
  an array. For a plain object with at least one property the outcome is the signer's:
  the token it returns, or a failure that wraps the message it throws.
\<close>

theorem generateToken_outcome:
  "((\<forall>kvs. payload \<noteq> JObject kvs) \<longrightarrow>
      generateToken lib cfg payload options = Inl msg_payload) \<and>
   (kvs \<noteq> [] \<longrightarrow>
      generateToken lib cfg (JObject kvs) options =
        (case jwt_sign lib (JObject kvs) (secret cfg) (sign_options cfg options) of
           Inr token \<Rightarrow> Inr token
         | Inl m \<Rightarrow> Inl (msg_sign_failed @ m)))"
  by (cases payload) (simp_all add: generateToken_def)

lemma example_sign_user:
  "jwt_sign example_jwt (JObject [(ascii ''user_id'', JNum 7)]) (secret example_config)
     (sign_options example_config []) = Inr (ascii ''signed'')"
  by (simp add: example_jwt_def sign_options_def object_assign_def ascii_def)

theorem generateToken_outcome_witness:
  "generateToken example_jwt example_config JNull [] = Inl msg_payload \<and>
   generateToken example_jwt example_config (JArray [JNum 1]) [] = Inl msg_payload \<and>
   generateToken example_jwt example_config (JStr (ascii ''bob'')) [] = Inl msg_payload \<and>
   generateToken example_jwt example_config (JObject [(ascii ''user_id'', JNum 7)]) [] =
     Inr (ascii ''signed'')"
  using generateToken_outcome [of JNull example_jwt example_config "[]" "[(ascii ''user_id'', JNum 7)]"]
    generateToken_outcome [of "JArray [JNum 1]" example_jwt example_config "[]" "[(ascii ''user_id'', JNum 7)]"]
    generateToken_outcome [of "JStr (ascii ''bob'')" example_jwt example_config "[]" "[(ascii ''user_id'', JNum 7)]"]
    example_sign_user
  by simp

text \<open>
  A plain object with a property does not always get a token: the signer of the
  examples refuses, as jsonwebtoken does, a payload that brings its own \<open>exp\<close> while
  the option \<open>expiresIn\<close> is set, and \<open>generateToken\<close> fails.
\<close>

theorem signer_refusal_counterexample:
  "generateToken example_jwt example_config (JObject [(ascii ''exp'', JNum 1000)]) [] =
     Inl (msg_sign_failed @
          ascii ''Bad options.expiresIn option the payload already has an exp property.'')"
  by (simp add: example_jwt_def generateToken_def sign_options_def object_assign_def ascii_def)

text \<open>
  The guard of \<open>generateToken\<close> lets the object without properties through to the signer,
  although its message asks for a non-empty object.
\<close>

lemma generateToken_empty_object:
  "generateToken lib cfg (JObject []) options =
     (case jwt_sign lib (JObject []) (secret cfg) (sign_options cfg options) of
        Inr token \<Rightarrow> Inr token
      | Inl m \<Rightarrow> Inl (msg_sign_failed @ m))"
  by (simp add: generateToken_def)

subsection \<open>Refreshing a token\<close>

lemma match_expiry_message:
  "match_expiry (msg_expired @ d @ msg_close) =
     Some (takeWhile (\<lambda>c. \<not> line_terminator c) (d @ msg_close))"
  by (simp add: match_expiry_def msg_expired_def expiry_label_def startsWith_def)

lemma verifyToken_expired:
  assumes "s \<noteq> []"
    and "jwt_verify lib (pure_token s) (secret cfg) (verify_options cfg) = Inl (TokenExpiredError m e)"
  shows "verifyToken rt lib cfg (JStr s) =
           Invalid \<lparr>error_type = ''expired'',
                    error_message = msg_expired @ date_toString rt e @ msg_close\<rparr>"
  using assms by (simp add: verifyToken_def classify_def)

text \<open>
  A token that is reissued is signed with the default options, that is with the
  configured lifetime, over a payload that has lost the \<open>exp\<close> and \<open>iat\<close> of the old
  token: the signer sets both anew.
\<close>

lemma reissue_signs_anew:
  assumes "reissue lib cfg now s newPayload = Refreshed t"
  shows "\<exists>p. jwt_decode lib (pure_token s) = Inr p \<and> truthy p \<and>
           jwt_sign lib (JObject (final_payload now p newPayload)) (secret cfg)
             (sign_options cfg []) = Inr t \<and>
           map_of (final_payload now p newPayload) (ascii ''exp'') = None \<and>
           map_of (final_payload now p newPayload) (ascii ''iat'') = None \<and>
           map_of (sign_options cfg []) (ascii ''expiresIn'') = Some (JStr (expiresIn cfg))"
proof -
  from assms obtain p where p: "jwt_decode lib (pure_token s) = Inr p" and tr: "truthy p"
    and g: "generateToken lib cfg (JObject (final_payload now p newPayload)) [] = Inr t"
    by (auto simp add: reissue_def split: sum.splits if_splits)
  from g have "jwt_sign lib (JObject (final_payload now p newPayload)) (secret cfg)
      (sign_options cfg []) = Inr t"
    by (auto simp add: generateToken_def split: sum.splits)
  moreover have "map_of (final_payload now p newPayload) (ascii ''exp'') = None"
    by (simp add: final_payload_def delete_conv' ascii_def)
  moreover have "map_of (final_payload now p newPayload) (ascii ''iat'') = None"
    by (simp add: final_payload_def delete_conv' ascii_def)
  moreover have "map_of (sign_options cfg []) (ascii ''expiresIn'') = Some (JStr (expiresIn cfg))"
    by (simp add: sign_options_def object_assign_def)
  ultimately show ?thesis using p tr by blast
qed

text \<open>
  A token whose verification fails for another reason than its expiry is not refreshed:
  the result carries the type of the error and its message behind a prefix.
\<close>

lemma refresh_other_failure:
  assumes "verifyToken rt lib cfg token = Invalid err" and "error_type err \<noteq> ''expired''"
  shows "refreshToken rt lib cfg now token newPayload =
           Inr (NotRefreshed \<lparr>error_type = error_type err,
                  error_message = msg_cannot_refresh @ error_message err\<rparr>)"
  using assms by (simp add: refreshToken_def)

text \<open>
  For an expired token, the text that \<open>refreshToken\<close> hands to the \<open>Date\<close> constructor is
  the date as the message shows it followed by the closing parenthesis of the message.
  Where the runtime reads that text as the date, the grace period of 60 seconds holds.
\<close>

lemma refresh_expired_token_readable_date:
  assumes "s \<noteq> []"
    and "jwt_verify lib (pure_token s) (secret cfg) (verify_options cfg) = Inl (TokenExpiredError m e)"
    and "date_parse rt (takeWhile (\<lambda>c. \<not> line_terminator c) (date_toString rt e @ msg_close)) = Some t"
  shows "refreshToken rt lib cfg now (JStr s) newPayload =
           (if now > t + 60000
            then Inr (NotRefreshed \<lparr>error_type = ''refresh_expired'',
                        error_message = msg_leeway_over @ date_toString rt (t + 60000) @
                          msg_login_again\<rparr>)
            else Inr (reissue lib cfg now s newPayload))"
  using assms(3)
  by (simp add: refreshToken_def verifyToken_expired [OF assms(1,2)] match_expiry_message
      REFRESH_LEEWAY_def Let_def)

text \<open>
  Claim C1 asks that an expired token is refreshed only within 60 seconds of its
  expiry. Where the runtime reads the text as an Invalid Date, as V8 does for a date
  followed by another word, the comparison with the end of the grace period is false
  and the token is reissued at any time \<open>now\<close>.
\<close>

theorem refresh_expired_token_unreadable_date:
  assumes "s \<noteq> []"
    and "jwt_verify lib (pure_token s) (secret cfg) (verify_options cfg) = Inl (TokenExpiredError m e)"
    and "date_parse rt (takeWhile (\<lambda>c. \<not> line_terminator c) (date_toString rt e @ msg_close)) = None"
  shows "refreshToken rt lib cfg now (JStr s) newPayload = Inr (reissue lib cfg now s newPayload)"
  using assms(3)
  by (simp add: refreshToken_def verifyToken_expired [OF assms(1,2)] match_expiry_message)

lemma ascii_bearer_old:
  "ascii ''old'' = [111, 108, 100]"
  "ascii ''Bearer old'' = [66, 101, 97, 114, 101, 114, 32, 111, 108, 100]"
  "ascii ''Bearer '' = [66, 101, 97, 114, 101, 114, 32]"
  by (simp_all add: ascii_def)

lemma example_pure_token: "pure_token (ascii ''Bearer old'') = ascii ''old''"
  by (simp add: ascii_bearer_old pure_token_def BEARER_PREFIX_def startsWith_def trim_def
      white_space_def)

lemma example_unreadable_date:
  "date_parse example_runtime (takeWhile (\<lambda>c. \<not> line_terminator c)
     (date_toString example_runtime 1000000 @ msg_close)) = None"
  by (simp add: example_runtime_def number_toString_def dec.simps msg_close_def
      line_terminator_def is_digit_def)

lemma example_reissue:
  "reissue example_jwt example_config (1000000 + 3600000) (ascii ''Bearer old'') (JObject [])
     = Refreshed (ascii ''signed'')"
  by (simp add: reissue_def example_pure_token example_jwt_def final_payload_def
      object_assign_def generateToken_def sign_options_def ascii_def)

theorem refresh_expired_token_unreadable_date_witness:
  "refreshToken example_runtime example_jwt example_config (1000000 + 3600000)
     (JStr (ascii ''Bearer old'')) (JObject []) = Inr (Refreshed (ascii ''signed''))"
proof -
  have n: "ascii ''Bearer old'' \<noteq> []" by (simp add: ascii_def)
  have v: "jwt_verify example_jwt (pure_token (ascii ''Bearer old'')) (secret example_config)
             (verify_options example_config) = Inl (TokenExpiredError (ascii ''jwt expired'') 1000000)"
    by (simp add: example_pure_token example_jwt_def)
  show ?thesis
    using refresh_expired_token_unreadable_date [OF n v example_unreadable_date,
        of "1000000 + 3600000" "JObject []"] example_reissue
    by simp
qed

section \<open>Properties of the password hashing\<close>

text \<open>\<open>verifyPassword\<close> answers what the library answers and throws what it throws.\<close>

lemma verifyPassword_delegates: "verifyPassword compareSync p d = compareSync p d"
  by (simp add: verifyPassword_def)

text \<open>
  Claim C7, as the code has it. With the \<open>compareSync\<close> of bcryptjs, \<open>verifyPassword\<close>
  returns false for every digest whose length is not 60; for a string of 60 characters
  that does not start with \<open>$2\<close> it throws the library's error.
\<close>

theorem verifyPassword_malformed_digest:
  "(length d \<noteq> 60 \<longrightarrow> verifyPassword (bcryptjs_compareSync rest) p d = Inr False) \<and>
   (length d = 60 \<longrightarrow> \<not> startsWith d (ascii ''$2'') \<longrightarrow>
      verifyPassword (bcryptjs_compareSync rest) p d =
        Inl (ascii ''Invalid salt version: '' @ take 2 d))"
proof -
  have header: "take 1 d \<noteq> ascii ''$'' \<or> take 1 (drop 1 d) \<noteq> ascii ''2''"
    if "\<not> startsWith d (ascii ''$2'')"
  proof (rule ccontr)
    assume "\<not> (take 1 d \<noteq> ascii ''$'' \<or> take 1 (drop 1 d) \<noteq> ascii ''2'')"
    then have a: "take 1 d = ascii ''$''" and b: "take 1 (drop 1 d) = ascii ''2''" by simp_all
    have "take (1 + 1) d = take 1 d @ take 1 (drop 1 d)" by (rule take_add)
    also have "\<dots> = ascii ''$'' @ ascii ''2''" by (simp only: a b)
    also have "\<dots> = ascii ''$2''" by (simp add: ascii_def)
    finally have "take 2 d = ascii ''$2''" by (simp add: numeral_2_eq_2)
    with that show False by (simp add: startsWith_def ascii_def numeral_2_eq_2)
  qed
  show ?thesis
  proof (intro conjI impI)
    assume "length d \<noteq> 60"
    then show "verifyPassword (bcryptjs_compareSync rest) p d = Inr False"
      by (simp add: verifyPassword_def bcryptjs_compareSync_def)
  next
    assume len: "length d = 60" and "\<not> startsWith d (ascii ''$2'')"
    have s1: "take 1 (take 29 d) = take 1 d" by simp
    have s2: "take 1 (drop 1 (take 29 d)) = take 1 (drop 1 d)" by (simp add: drop_take)
    have s3: "take 2 (take 29 d) = take 2 d" by simp
    from header [OF \<open>\<not> startsWith d (ascii ''$2'')\<close>]
    have "take 1 (take 29 d) \<noteq> ascii ''$'' \<or> take 1 (drop 1 (take 29 d)) \<noteq> ascii ''2''"
      by (simp only: s1 s2)
    then have "bcryptjs_compareSync rest p d = Inl (ascii ''Invalid salt version: '' @ take 2 (take 29 d))"
      unfolding bcryptjs_compareSync_def Let_def len by auto
    then show "verifyPassword (bcryptjs_compareSync rest) p d =
            Inl (ascii ''Invalid salt version: '' @ take 2 d)"
      by (simp only: verifyPassword_def s3)
  qed
qed

theorem verifyPassword_malformed_digest_witness:
  "verifyPassword (bcryptjs_compareSync (\<lambda>p d. Inr True)) (ascii ''secret1'') (ascii ''not-a-digest'')
     = Inr False"
proof -
  have "length (ascii ''not-a-digest'') \<noteq> 60" by (simp add: ascii_def)
  then show ?thesis
    using verifyPassword_malformed_digest [of "ascii ''not-a-digest''" "\<lambda>p d. Inr True"
        "ascii ''secret1''"]
    by simp
qed

text \<open>
  A malformed digest on which \<open>verifyPassword\<close> throws: sixty times the letter \<open>a\<close>.
\<close>

theorem verifyPassword_throws_counterexample:
  "\<forall>rest. verifyPassword (bcryptjs_compareSync rest) (ascii ''secret1'') (replicate 60 97) =
     Inl (ascii ''Invalid salt version: aa'')"
  by (simp add: verifyPassword_def bcryptjs_compareSync_def ascii_def Let_def numeral_2_eq_2)

end
